theory Spec2Isabelle
  imports Main "HOL-Library.AList"
begin

section \<open>Strings: Go strings are byte sequences, read as UTF-8 when ranged over\<close>

text \<open>
  A Go \<^verbatim>\<open>string\<close> is a sequence of bytes; \<^verbatim>\<open>len(s)\<close> counts bytes, while
  \<^verbatim>\<open>for _, c := range s\<close> decodes UTF-8 and yields one rune per encoded code point
  (U+FFFD, one byte wide, for a byte that starts no well-formed sequence).
  Strings are modelled as \<^typ>\<open>string\<close>; bytes and runes are read as natural numbers.
\<close>

type_synonym rune = nat

definition RuneError :: rune where
  "RuneError = 0xFFFD"

definition seqSize :: "nat \<Rightarrow> nat" where
  \<comment> \<open>width announced by a leading byte: 1 for ASCII, 0 for a byte that cannot lead\<close>
  "seqSize b0 =
     (if b0 < 0x80 then 1
      else if b0 < 0xC2 then 0
      else if b0 < 0xE0 then 2
      else if b0 < 0xF0 then 3
      else if b0 < 0xF5 then 4
      else 0)"

definition acceptLo :: "nat \<Rightarrow> nat" where
  "acceptLo b0 = (if b0 = 0xE0 then 0xA0 else if b0 = 0xF0 then 0x90 else 0x80)"

definition acceptHi :: "nat \<Rightarrow> nat" where
  "acceptHi b0 = (if b0 = 0xED then 0x9F else if b0 = 0xF4 then 0x8F else 0xBF)"

definition DecodeRune :: "nat list \<Rightarrow> rune \<times> nat" where
  \<comment> \<open>\<^verbatim>\<open>utf8.DecodeRuneInString\<close>: the first rune and its width in bytes\<close>
  "DecodeRune bs =
     (case bs of
        [] \<Rightarrow> (RuneError, 0)
      | b0 # _ \<Rightarrow>
          if seqSize b0 = 1 then (b0, 1)
          else if seqSize b0 = 0 then (RuneError, 1)
          else if length bs < seqSize b0 then (RuneError, 1)
          else if bs ! 1 < acceptLo b0 \<or> acceptHi b0 < bs ! 1 then (RuneError, 1)
          else if seqSize b0 \<le> 2 then ((b0 mod 32) * 64 + bs ! 1 mod 64, 2)
          else if bs ! 2 < 0x80 \<or> 0xBF < bs ! 2 then (RuneError, 1)
          else if seqSize b0 \<le> 3
            then ((b0 mod 16) * 4096 + (bs ! 1 mod 64) * 64 + bs ! 2 mod 64, 3)
          else if bs ! 3 < 0x80 \<or> 0xBF < bs ! 3 then (RuneError, 1)
          else ((b0 mod 8) * 262144 + (bs ! 1 mod 64) * 4096
                  + (bs ! 2 mod 64) * 64 + bs ! 3 mod 64, 4))"

lemma DecodeRune_width_pos: "bs \<noteq> [] \<Longrightarrow> 0 < snd (DecodeRune bs)"
  by (cases bs) (simp_all add: DecodeRune_def)

function runesOf :: "nat list \<Rightarrow> rune list" where
  "runesOf [] = []"
| "runesOf (b # bs) =
     fst (DecodeRune (b # bs)) # runesOf (drop (snd (DecodeRune (b # bs))) (b # bs))"
  by pat_completeness auto
termination
proof (relation "measure length")
  show "wf (measure length)" by simp
next
  fix b :: nat and bs :: "nat list"
  have "0 < snd (DecodeRune (b # bs))"
    by (rule DecodeRune_width_pos) simp
  then show "(drop (snd (DecodeRune (b # bs))) (b # bs), b # bs) \<in> measure length"
    by simp
qed

definition bytes :: "string \<Rightarrow> nat list" where
  "bytes s = map of_char s"

definition range_runes :: "string \<Rightarrow> rune list" where
  \<comment> \<open>the runes visited by \<^verbatim>\<open>for _, c := range s\<close>\<close>
  "range_runes s = runesOf (bytes s)"

subsection \<open>The functions of package \<^verbatim>\<open>strings\<close> that the program calls\<close>

definition isSpace :: "rune \<Rightarrow> bool" where
  \<comment> \<open>\<^verbatim>\<open>unicode.IsSpace\<close>: the code points with the White_Space property\<close>
  "isSpace r \<longleftrightarrow>
     (9 \<le> r \<and> r \<le> 13) \<or> r = 0x20 \<or> r = 0x85 \<or> r = 0xA0 \<or> r = 0x1680 \<or>
     (0x2000 \<le> r \<and> r \<le> 0x200A) \<or> r = 0x2028 \<or> r = 0x2029 \<or> r = 0x202F \<or>
     r = 0x205F \<or> r = 0x3000"

definition RuneStart :: "nat \<Rightarrow> bool" where
  "RuneStart b \<longleftrightarrow> \<not> (0x80 \<le> b \<and> b < 0xC0)"

definition lastStart :: "nat list \<Rightarrow> nat" where
  \<comment> \<open>the backward scan of \<^verbatim>\<open>utf8.DecodeLastRuneInString\<close>: from the byte before the
      last one down to four bytes from the end, stop at the first byte that can start a
      rune; with none, the scan ends one below its limit (or at 0)\<close>
  "lastStart bs =
     (let n = length bs; lim = n - 4
      in case filter (\<lambda>i. RuneStart (bs ! i)) (rev [lim ..< n - 1]) of
           i # _ \<Rightarrow> i
         | [] \<Rightarrow> lim - 1)"

definition DecodeLastRune :: "nat list \<Rightarrow> rune \<times> nat" where
  \<comment> \<open>\<^verbatim>\<open>utf8.DecodeLastRuneInString\<close>: the last rune is accepted only when the rune
      decoded at the start found by the scan ends exactly at the end of the string\<close>
  "DecodeLastRune bs =
     (if bs = [] then (RuneError, 0)
      else if last bs < 0x80 then (last bs, 1)
      else if lastStart bs + snd (DecodeRune (drop (lastStart bs) bs)) \<noteq> length bs
        then (RuneError, 1)
      else DecodeRune (drop (lastStart bs) bs))"

lemma lastStart_less: "bs \<noteq> [] \<Longrightarrow> lastStart bs < length bs"
proof -
  assume ne: "bs \<noteq> []"
  let ?cands = "filter (\<lambda>i. RuneStart (bs ! i)) (rev [length bs - 4 ..< length bs - 1])"
  show ?thesis
  proof (cases ?cands)
    case Nil
    with ne show ?thesis by (simp add: lastStart_def Let_def)
  next
    case (Cons i rest)
    then have "i \<in> set ?cands" by simp
    then have "i < length bs - 1" by simp
    with Cons show ?thesis by (simp add: lastStart_def Let_def)
  qed
qed

lemma DecodeLastRune_width_pos: "bs \<noteq> [] \<Longrightarrow> 0 < snd (DecodeLastRune bs)"
proof -
  assume ne: "bs \<noteq> []"
  then have "drop (lastStart bs) bs \<noteq> []"
    using lastStart_less [OF ne] by simp
  then have "0 < snd (DecodeRune (drop (lastStart bs) bs))"
    by (rule DecodeRune_width_pos)
  with ne show ?thesis by (simp add: DecodeLastRune_def)
qed

function trimLeftSpace :: "nat list \<Rightarrow> nat" where
  \<comment> \<open>number of leading bytes that make up white-space runes\<close>
  "trimLeftSpace [] = 0"
| "trimLeftSpace (b # bs) =
     (if isSpace (fst (DecodeRune (b # bs)))
      then snd (DecodeRune (b # bs)) + trimLeftSpace (drop (snd (DecodeRune (b # bs))) (b # bs))
      else 0)"
  by pat_completeness auto
termination
proof (relation "measure length")
  show "wf (measure length)" by simp
next
  fix b :: nat and bs :: "nat list"
  have "0 < snd (DecodeRune (b # bs))"
    by (rule DecodeRune_width_pos) simp
  then show "(drop (snd (DecodeRune (b # bs))) (b # bs), b # bs) \<in> measure length"
    by simp
qed

function trimRightSpace :: "nat list \<Rightarrow> nat" where
  \<comment> \<open>number of trailing bytes that make up white-space runes\<close>
  "trimRightSpace [] = 0"
| "trimRightSpace (b # bs) =
     (if isSpace (fst (DecodeLastRune (b # bs)))
      then snd (DecodeLastRune (b # bs))
             + trimRightSpace (take (length (b # bs) - snd (DecodeLastRune (b # bs))) (b # bs))
      else 0)"
  by pat_completeness auto
termination
proof (relation "measure length")
  show "wf (measure length)" by simp
next
  fix b :: nat and bs :: "nat list"
  have "0 < snd (DecodeLastRune (b # bs))"
    by (rule DecodeLastRune_width_pos) simp
  then show "(take (length (b # bs) - snd (DecodeLastRune (b # bs))) (b # bs), b # bs)
               \<in> measure length"
    by simp
qed

definition TrimSpace :: "string \<Rightarrow> string" where
  "TrimSpace s =
     (let t = drop (trimLeftSpace (bytes s)) s
      in take (length t - trimRightSpace (bytes t)) t)"

definition HasPrefix :: "string \<Rightarrow> string \<Rightarrow> bool" where
  "HasPrefix s p \<longleftrightarrow> length p \<le> length s \<and> take (length p) s = p"

definition HasSuffix :: "string \<Rightarrow> string \<Rightarrow> bool" where
  "HasSuffix s p \<longleftrightarrow> length p \<le> length s \<and> drop (length s - length p) s = p"

definition Trim :: "string \<Rightarrow> string \<Rightarrow> string" where
  \<comment> \<open>\<^verbatim>\<open>strings.Trim\<close> with a cutset of ASCII characters: bytes are cut at both ends\<close>
  "Trim s cutset =
     rev (dropWhile (\<lambda>c. c \<in> set cutset) (rev (dropWhile (\<lambda>c. c \<in> set cutset) s)))"

fun Contains :: "string \<Rightarrow> char \<Rightarrow> bool" where
  \<comment> \<open>\<^verbatim>\<open>strings.Contains\<close> for a separator of one byte\<close>
  "Contains [] sep = False"
| "Contains (c # cs) sep = (c = sep \<or> Contains cs sep)"

fun Split :: "string \<Rightarrow> char \<Rightarrow> string list" where
  \<comment> \<open>\<^verbatim>\<open>strings.Split\<close> for a separator of one byte: one more field than separators\<close>
  "Split [] sep = [[]]"
| "Split (c # cs) sep =
     (if c = sep then [] # Split cs sep
      else (case Split cs sep of
              [] \<Rightarrow> [[c]]
            | f # fs \<Rightarrow> (c # f) # fs))"

fun SplitN2 :: "string \<Rightarrow> char \<Rightarrow> string list" where
  \<comment> \<open>\<^verbatim>\<open>strings.SplitN(s, sep, 2)\<close>: cut at the first separator, if there is one\<close>
  "SplitN2 [] sep = [[]]"
| "SplitN2 (c # cs) sep =
     (if c = sep then [[], cs]
      else (case SplitN2 cs sep of
              [f, rest] \<Rightarrow> [c # f, rest]
            | _ \<Rightarrow> [c # cs]))"

section \<open>MFA code validation\<close>

text \<open>
  \<^verbatim>\<open>AWSService.ValidateMFACode\<close> (core/aws.go) and \<^verbatim>\<open>ManualDriver.ValidateMFACode\<close>
  have the same body: a byte-length test, then a loop over the runes that returns
  false at the first rune outside \<^verbatim>\<open>'0'..'9'\<close>.
\<close>

fun digits_loop :: "rune list \<Rightarrow> bool" where
  "digits_loop [] = True"
| "digits_loop (c # cs) = (if c < 48 \<or> c > 57 then False else digits_loop cs)"

definition ValidateMFACode :: "string \<Rightarrow> bool" where
  "ValidateMFACode code =
     (if length code \<noteq> 6 then False else digits_loop (range_runes code))"

definition isDigit :: "nat \<Rightarrow> bool" where
  "isDigit c \<longleftrightarrow> 48 \<le> c \<and> c \<le> 57"

lemma digits_loop_list_all: "digits_loop cs = list_all isDigit cs"
  by (induction cs) (auto simp: isDigit_def)

lemma DecodeRune_ascii: "b < 0x80 \<Longrightarrow> DecodeRune (b # bs) = (b, 1)"
  by (simp add: DecodeRune_def seqSize_def)

lemma lead2_mod: "194 \<le> b \<Longrightarrow> b < 224 \<Longrightarrow> 2 \<le> (b::nat) mod 32"
  by presburger

lemma lead3_mod: "225 \<le> b \<Longrightarrow> b < 240 \<Longrightarrow> 1 \<le> (b::nat) mod 16"
  by presburger

lemma lead4_mod: "241 \<le> b \<Longrightarrow> b < 245 \<Longrightarrow> 1 \<le> (b::nat) mod 8"
  by presburger

lemma cont_E0_mod: "160 \<le> c \<Longrightarrow> c \<le> 191 \<Longrightarrow> 32 \<le> (c::nat) mod 64"
  by presburger

lemma cont_F0_mod: "144 \<le> c \<Longrightarrow> c \<le> 191 \<Longrightarrow> 16 \<le> (c::nat) mod 64"
  by presburger

lemma DecodeRune_lead_invalid:
  "\<not> b < 0x80 \<Longrightarrow> b < 194 \<or> 245 \<le> b \<Longrightarrow> fst (DecodeRune (b # bs)) = RuneError"
  by (auto simp: DecodeRune_def seqSize_def)

lemma DecodeRune_lead2:
  "194 \<le> b \<Longrightarrow> b < 224 \<Longrightarrow>
   fst (DecodeRune (b # bs)) = RuneError \<or>
   fst (DecodeRune (b # bs)) = (b mod 32) * 64 + (b # bs) ! 1 mod 64"
  by (simp add: DecodeRune_def seqSize_def)

lemma DecodeRune_lead3:
  "224 \<le> b \<Longrightarrow> b < 240 \<Longrightarrow>
   fst (DecodeRune (b # bs)) = RuneError \<or>
   (acceptLo b \<le> (b # bs) ! 1 \<and> (b # bs) ! 1 \<le> acceptHi b \<and>
    fst (DecodeRune (b # bs)) =
      (b mod 16) * 4096 + ((b # bs) ! 1 mod 64) * 64 + (b # bs) ! 2 mod 64)"
  by (simp add: DecodeRune_def seqSize_def)

lemma DecodeRune_lead4:
  "240 \<le> b \<Longrightarrow> b < 245 \<Longrightarrow>
   fst (DecodeRune (b # bs)) = RuneError \<or>
   (acceptLo b \<le> (b # bs) ! 1 \<and> (b # bs) ! 1 \<le> acceptHi b \<and>
    fst (DecodeRune (b # bs)) =
      (b mod 8) * 262144 + ((b # bs) ! 1 mod 64) * 4096
        + ((b # bs) ! 2 mod 64) * 64 + (b # bs) ! 3 mod 64)"
  by (simp add: DecodeRune_def seqSize_def)

lemma DecodeRune_non_ascii:
  assumes "\<not> b < 0x80"
  shows "0x80 \<le> fst (DecodeRune (b # bs))"
proof -
  let ?r = "fst (DecodeRune (b # bs))"
  let ?c = "(b # bs) ! 1"
  consider (inv) "b < 194 \<or> 245 \<le> b" | (two) "194 \<le> b" "b < 224"
    | (three) "224 \<le> b" "b < 240" | (four) "240 \<le> b" "b < 245"
    by linarith
  then show ?thesis
  proof cases
    case inv
    from DecodeRune_lead_invalid [OF assms inv] show ?thesis by (simp add: RuneError_def)
  next
    case two
    from lead2_mod [OF two] have "128 \<le> (b mod 32) * 64" by simp
    with DecodeRune_lead2 [OF two, of bs] show ?thesis by (auto simp: RuneError_def)
  next
    case three
    from DecodeRune_lead3 [OF three, of bs]
    consider "?r = RuneError"
      | "acceptLo b \<le> ?c" "?c \<le> acceptHi b"
        "?r = (b mod 16) * 4096 + (?c mod 64) * 64 + (b # bs) ! 2 mod 64"
      by blast
    then show ?thesis
    proof cases
      case 1
      then show ?thesis by (simp add: RuneError_def)
    next
      case 2
      show ?thesis
      proof (cases "b = 224")
        case True
        with 2 have "160 \<le> ?c" "?c \<le> 191"
          by (simp_all add: acceptLo_def acceptHi_def)
        from cont_E0_mod [OF this] have "2048 \<le> (?c mod 64) * 64" by simp
        with 2(3) show ?thesis by simp
      next
        case False
        with three have "225 \<le> b" "b < 240" by simp_all
        from lead3_mod [OF this] have "4096 \<le> (b mod 16) * 4096" by simp
        with 2(3) show ?thesis by simp
      qed
    qed
  next
    case four
    from DecodeRune_lead4 [OF four, of bs]
    consider "?r = RuneError"
      | "acceptLo b \<le> ?c" "?c \<le> acceptHi b"
        "?r = (b mod 8) * 262144 + (?c mod 64) * 4096
                + ((b # bs) ! 2 mod 64) * 64 + (b # bs) ! 3 mod 64"
      by blast
    then show ?thesis
    proof cases
      case 1
      then show ?thesis by (simp add: RuneError_def)
    next
      case 2
      show ?thesis
      proof (cases "b = 240")
        case True
        with 2 have "144 \<le> ?c" "?c \<le> 191"
          by (simp_all add: acceptLo_def acceptHi_def)
        from cont_F0_mod [OF this] have "65536 \<le> (?c mod 64) * 4096" by simp
        with 2(3) show ?thesis by simp
      next
        case False
        with four have "241 \<le> b" "b < 245" by simp_all
        from lead4_mod [OF this] have "262144 \<le> (b mod 8) * 262144" by simp
        with 2(3) show ?thesis by simp
      qed
    qed
  qed
qed

lemma runesOf_digits_ascii: "list_all isDigit (runesOf bs) \<Longrightarrow> runesOf bs = bs"
proof (induction bs rule: runesOf.induct)
  case 1
  then show ?case by simp
next
  case (2 b bs)
  from "2.prems" have d: "isDigit (fst (DecodeRune (b # bs)))" by simp
  have "b < 0x80"
  proof (rule ccontr)
    assume "\<not> b < 0x80"
    from DecodeRune_non_ascii [OF this, of bs] d show False by (simp add: isDigit_def)
  qed
  then have dec: "DecodeRune (b # bs) = (b, 1)" by (rule DecodeRune_ascii)
  with "2.prems" "2.IH" show ?case by simp
qed

lemma runesOf_of_digits: "list_all isDigit bs \<Longrightarrow> runesOf bs = bs"
proof (induction bs)
  case Nil
  then show ?case by simp
next
  case (Cons b bs)
  then have "b < 0x80" by (simp add: isDigit_def)
  then have "DecodeRune (b # bs) = (b, 1)" by (rule DecodeRune_ascii)
  with Cons show ?case by simp
qed

lemma digits_runes_iff_bytes: "list_all isDigit (runesOf bs) \<longleftrightarrow> list_all isDigit bs"
  using runesOf_digits_ascii runesOf_of_digits by metis



text \<open>
  C1. \<^verbatim>\<open>ValidateMFACode(s)\<close> is true exactly when \<open>s\<close> has six characters and
  each of them is a decimal digit. The statement is given twice: once counting
  characters as the runes the loop visits, once counting bytes (the two agree, because a
  string of digit runes is pure ASCII). The empty string, a shorter or longer string
  and a string with any other character are all rejected.
\<close>

theorem ValidateMFACode_iff:
  "(ValidateMFACode s \<longleftrightarrow>
      length (range_runes s) = 6 \<and> list_all isDigit (range_runes s)) \<and>
   (ValidateMFACode s \<longleftrightarrow>
      length s = 6 \<and> list_all (\<lambda>c. isDigit (of_char c)) s)"
proof -
  have bytes_view: "ValidateMFACode s \<longleftrightarrow> length s = 6 \<and> list_all isDigit (bytes s)"
    by (simp add: ValidateMFACode_def range_runes_def digits_loop_list_all
        digits_runes_iff_bytes)
  have "length (range_runes s) = 6 \<and> list_all isDigit (range_runes s)
      \<longleftrightarrow> length s = 6 \<and> list_all isDigit (bytes s)"
  proof
    assume a: "length (range_runes s) = 6 \<and> list_all isDigit (range_runes s)"
    then have "list_all isDigit (runesOf (bytes s))"
      by (simp add: range_runes_def)
    then have "runesOf (bytes s) = bytes s"
      by (rule runesOf_digits_ascii)
    with a show "length s = 6 \<and> list_all isDigit (bytes s)"
      by (simp add: range_runes_def bytes_def)
  next
    assume a: "length s = 6 \<and> list_all isDigit (bytes s)"
    then have "list_all isDigit (bytes s)" by simp
    then have "runesOf (bytes s) = bytes s"
      by (rule runesOf_of_digits)
    with a show "length (range_runes s) = 6 \<and> list_all isDigit (range_runes s)"
      by (simp add: range_runes_def bytes_def)
  qed
  with bytes_view show ?thesis
    by (simp add: bytes_def list_all_iff)
qed

lemma ValidateMFACode_examples:
  "ValidateMFACode ''123456''" "ValidateMFACode ''000000''"
  "\<not> ValidateMFACode []" "\<not> ValidateMFACode ''12345''"
  "\<not> ValidateMFACode ''1234567''" "\<not> ValidateMFACode ''12345a''"
  "\<not> ValidateMFACode ''123-45''" "\<not> ValidateMFACode ''123 45''"
  by (simp_all add: ValidateMFACode_def range_runes_def bytes_def DecodeRune_ascii)


section \<open>The credential store\<close>

text \<open>
  \<^verbatim>\<open>types.StaticCredential\<close> and \<^verbatim>\<open>core.CredentialReader\<close>. The two Go maps are kept
  as association lists with one entry per key (\<^const>\<open>AList.update\<close> is the map
  assignment). Go leaves the order in which \<^verbatim>\<open>range\<close> visits a map unspecified; the
  model visits the entries in list order, and the theorems about the results of such
  loops speak of the set of elements only.
\<close>

type_synonym error = string

record StaticCredential =
  ProfileName :: string
  AccessKey :: string
  AccessSecret :: string
  AccountID :: string
  MfaSerial :: string
  AssumableRoleID :: string
  VaultKey :: string

record CredentialReader =
  credentials :: "(string \<times> StaticCredential) list"
  roleArnToProfile :: "(string \<times> string) list"

definition zeroCredential :: StaticCredential where
  "zeroCredential =
     \<lparr>ProfileName = [], AccessKey = [], AccessSecret = [], AccountID = [],
      MfaSerial = [], AssumableRoleID = [], VaultKey = []\<rparr>"

definition NewCredentialReader :: CredentialReader where
  "NewCredentialReader = \<lparr>credentials = [], roleArnToProfile = []\<rparr>"

record parse_state =
  currentProfile :: string
  currentCredential :: StaticCredential
  reader :: CredentialReader

definition saveProfile :: "parse_state \<Rightarrow> CredentialReader" where
  \<comment> \<open>the block "Save previous profile if it exists", which also ends the function\<close>
  "saveProfile st =
     (if currentProfile st \<noteq> [] then
        let cr = (reader st)\<lparr>credentials :=
                   AList.update (currentProfile st) (currentCredential st)
                     (credentials (reader st))\<rparr>
        in if AssumableRoleID (currentCredential st) \<noteq> [] then
             cr\<lparr>roleArnToProfile :=
                  AList.update (AssumableRoleID (currentCredential st)) (currentProfile st)
                    (roleArnToProfile cr)\<rparr>
           else cr
      else reader st)"

definition isHeader :: "string \<Rightarrow> bool" where
  "isHeader line \<longleftrightarrow> HasPrefix line ''['' \<and> HasSuffix line '']''"

definition assignKey :: "string \<Rightarrow> string \<Rightarrow> StaticCredential \<Rightarrow> StaticCredential" where
  "assignKey key val c =
     (if key = ''aws_access_key_id'' then c\<lparr>AccessKey := val\<rparr>
      else if key = ''aws_secret_access_key'' then c\<lparr>AccessSecret := val\<rparr>
      else if key = ''account_id'' \<or> key = ''aws_account_id'' then c\<lparr>AccountID := val\<rparr>
      else if key = ''mfa_serial'' then c\<lparr>MfaSerial := val\<rparr>
      else if key = ''assumable_role_id'' then c\<lparr>AssumableRoleID := val\<rparr>
      else if key = ''vault_key'' then c\<lparr>VaultKey := val\<rparr>
      else c)"

definition scanLine :: "string \<Rightarrow> parse_state \<Rightarrow> parse_state" where
  \<comment> \<open>one turn of the loop over \<^verbatim>\<open>scanner.Scan()\<close>, on the text of one line\<close>
  "scanLine text st =
     (let line = TrimSpace text in
      if line = [] \<or> HasPrefix line ''#'' then st
      else if isHeader line then
        \<lparr>currentProfile = Trim line ''[]'',
         currentCredential = zeroCredential\<lparr>ProfileName := Trim line ''[]''\<rparr>,
         reader = saveProfile st\<rparr>
      else if currentProfile st \<noteq> [] \<and> Contains line (CHR ''='') then
        let parts = SplitN2 line (CHR ''='') in
        if length parts = 2 then
          let key = TrimSpace (parts ! 0); val = TrimSpace (parts ! 1) in
          if val = [] then st
          else st\<lparr>currentCredential := assignKey key val (currentCredential st)\<rparr>
        else st
      else st)"

fun scanLines :: "string list \<Rightarrow> parse_state \<Rightarrow> parse_state" where
  "scanLines [] st = st"
| "scanLines (text # rest) st = scanLines rest (scanLine text st)"

datatype cred_source =
    NoHomeDir error
  | CannotOpen error
  | Scanned "string list" "error option"

text \<open>
  What \<^verbatim>\<open>LoadCredentialsFile\<close> meets outside the program: the home directory lookup
  fails, or \<^verbatim>\<open>~/.aws/credentials\<close> cannot be opened, or the scanner yields the lines
  of the file and then its final error, if any. The last profile is saved before the
  scanner's error is looked at, so a read error still leaves the profiles read so far
  in the store.
\<close>

definition LoadCredentialsFile :: "cred_source \<Rightarrow> CredentialReader \<Rightarrow> error option \<times> CredentialReader" where
  "LoadCredentialsFile src cr =
     (case src of
        NoHomeDir e \<Rightarrow> (Some (''failed to get home directory: '' @ e), cr)
      | CannotOpen e \<Rightarrow> (Some (''failed to open credentials file: '' @ e), cr)
      | Scanned lines scanErr \<Rightarrow>
          let st = scanLines lines
                     \<lparr>currentProfile = [], currentCredential = zeroCredential, reader = cr\<rparr>
          in (case scanErr of
                Some e \<Rightarrow> (Some (''error reading credentials file: '' @ e), saveProfile st)
              | None \<Rightarrow> (None, saveProfile st)))"

definition loaded :: "cred_source \<Rightarrow> CredentialReader" where
  \<comment> \<open>the store of a process that has loaded the source once, as \<^verbatim>\<open>NewAWSService\<close> does\<close>
  "loaded src = snd (LoadCredentialsFile src NewCredentialReader)"

definition GetValidProfiles :: "CredentialReader \<Rightarrow> string list" where
  "GetValidProfiles cr =
     map fst (filter (\<lambda>(profile, credential).
                        AccessKey credential \<noteq> [] \<and> AccessSecret credential \<noteq> [] \<and>
                        MfaSerial credential \<noteq> [])
                (credentials cr))"

definition GetCredential :: "CredentialReader \<Rightarrow> string \<Rightarrow> StaticCredential \<times> bool" where
  "GetCredential cr profile =
     (case map_of (credentials cr) profile of
        Some credential \<Rightarrow> (credential, True)
      | None \<Rightarrow> (zeroCredential, False))"

definition GetAssumableRoles :: "CredentialReader \<Rightarrow> string \<Rightarrow> string list" where
  "GetAssumableRoles cr profile =
     map (\<lambda>(profileName, credential). AssumableRoleID credential)
       (filter (\<lambda>(profileName, credential).
                  profileName \<noteq> profile \<and> AssumableRoleID credential \<noteq> [])
          (credentials cr))"

definition GetProfileByRoleArn :: "CredentialReader \<Rightarrow> string \<Rightarrow> string" where
  "GetProfileByRoleArn cr roleArn =
     (case map_of (roleArnToProfile cr) roleArn of Some p \<Rightarrow> p | None \<Rightarrow> [])"


subsection \<open>The sections a load saves\<close>

text \<open>
  A ghost of the loader: the (name, credential) pairs that the "save" block stores,
  in the order in which it stores them. A section is saved ("flushed") when the next
  header line is met and once more after the last line.
\<close>

definition flushed :: "parse_state \<Rightarrow> (string \<times> StaticCredential) list" where
  "flushed st =
     (if currentProfile st \<noteq> [] then [(currentProfile st, currentCredential st)] else [])"

definition opensSection :: "string \<Rightarrow> bool" where
  "opensSection text =
     (let line = TrimSpace text
      in \<not> (line = [] \<or> HasPrefix line ''#'') \<and> isHeader line)"

fun flushLog :: "string list \<Rightarrow> parse_state \<Rightarrow> (string \<times> StaticCredential) list" where
  "flushLog [] st = flushed st"
| "flushLog (text # rest) st =
     (if opensSection text then flushed st else []) @ flushLog rest (scanLine text st)"

definition sections :: "cred_source \<Rightarrow> (string \<times> StaticCredential) list" where
  "sections src =
     (case src of
        Scanned lines scanErr \<Rightarrow>
          flushLog lines
            \<lparr>currentProfile = [], currentCredential = zeroCredential,
             reader = NewCredentialReader\<rparr>
      | _ \<Rightarrow> [])"

definition store :: "string \<times> StaticCredential \<Rightarrow> CredentialReader \<Rightarrow> CredentialReader" where
  "store f cr = saveProfile \<lparr>currentProfile = fst f, currentCredential = snd f, reader = cr\<rparr>"

definition lastOwner :: "string \<Rightarrow> (string \<times> StaticCredential) list \<Rightarrow> string" where
  \<comment> \<open>the name of the last saved section whose role ID is \<open>r\<close>; empty when there is none\<close>
  "lastOwner r log =
     (case find (\<lambda>f. AssumableRoleID (snd f) = r) (rev log) of
        None \<Rightarrow> []
      | Some f \<Rightarrow> fst f)"

lemma saveProfile_flushed: "saveProfile st = foldl (\<lambda>cr f. store f cr) (reader st) (flushed st)"
  by (simp add: flushed_def store_def saveProfile_def Let_def)

lemma reader_scanLine:
  "reader (scanLine text st) = (if opensSection text then saveProfile st else reader st)"
  by (auto simp: scanLine_def opensSection_def Let_def)

lemma saveProfile_scanLines:
  "saveProfile (scanLines lines st) = foldl (\<lambda>cr f. store f cr) (reader st) (flushLog lines st)"
proof (induction lines arbitrary: st)
  case Nil
  show ?case by (simp add: saveProfile_flushed)
next
  case (Cons ln rest)
  have "reader (scanLine ln st) =
        foldl (\<lambda>cr f. store f cr) (reader st) (if opensSection ln then flushed st else [])"
    by (simp add: reader_scanLine saveProfile_flushed)
  with Cons.IH [of "scanLine ln st"] show ?case by simp
qed

lemma loaded_sections: "loaded src = foldl (\<lambda>cr f. store f cr) NewCredentialReader (sections src)"
  by (cases src)
    (simp_all add: loaded_def LoadCredentialsFile_def sections_def saveProfile_scanLines
      Let_def split: option.splits)

lemma flushed_names: "(n, c) \<in> set (flushed st) \<Longrightarrow> n \<noteq> []"
  by (simp add: flushed_def split: if_splits)

lemma flushLog_names: "(n, c) \<in> set (flushLog lines st) \<Longrightarrow> n \<noteq> []"
  by (induction lines arbitrary: st) (auto dest: flushed_names split: if_splits)

lemma sections_names: "(n, c) \<in> set (sections src) \<Longrightarrow> n \<noteq> []"
  by (cases src) (auto simp: sections_def dest: flushLog_names)

lemma credentials_store:
  "credentials (store f cr) =
     (if fst f \<noteq> [] then AList.update (fst f) (snd f) (credentials cr) else credentials cr)"
  by (simp add: store_def saveProfile_def Let_def)

lemma roleArnToProfile_store:
  "roleArnToProfile (store f cr) =
     (if fst f \<noteq> [] \<and> AssumableRoleID (snd f) \<noteq> []
      then AList.update (AssumableRoleID (snd f)) (fst f) (roleArnToProfile cr)
      else roleArnToProfile cr)"
  by (simp add: store_def saveProfile_def Let_def)

lemma distinct_credentials_fold:
  "distinct (map fst (credentials cr)) \<Longrightarrow>
   distinct (map fst (credentials (foldl (\<lambda>cr f. store f cr) cr log)))"
  by (induction log arbitrary: cr) (simp_all add: credentials_store distinct_update)

lemma distinct_credentials_loaded: "distinct (map fst (credentials (loaded src)))"
  by (simp add: loaded_sections distinct_credentials_fold NewCredentialReader_def)


subsection \<open>Example sources\<close>

lemmas eval_simps =
  TrimSpace_def bytes_def DecodeRune_def DecodeLastRune_def lastStart_def seqSize_def
  isSpace_def RuneError_def RuneStart_def acceptLo_def acceptHi_def Let_def
  HasPrefix_def HasSuffix_def isHeader_def Trim_def scanLine_def assignKey_def
  zeroCredential_def saveProfile_def NewCredentialReader_def loaded_def
  LoadCredentialsFile_def

definition mfaSource :: cred_source where
  \<comment> \<open>the shape of the credentials text of the tests: two complete profiles and one
      without an MFA serial\<close>
  "mfaSource =
     Scanned
       [''[default]'', ''aws_access_key_id = AK1'', ''aws_secret_access_key = s1'',
        ''mfa_serial = arn:mfa/user'', [],
        ''[int]'', ''aws_access_key_id = AK2'', ''aws_secret_access_key = s2'',
        ''mfa_serial = arn:mfa/int'', ''account_id = 1234'', [],
        ''[no-mfa]'', ''aws_access_key_id = AK3'', ''aws_secret_access_key = s3'',
        ''# mfa_serial is missing'']
       None"

definition rolesSource :: cred_source where
  \<comment> \<open>three profiles with a role of their own and one without\<close>
  "rolesSource =
     Scanned
       [''[prd]'', ''assumable_role_id = roleA'',
        ''[int]'', ''assumable_role_id = roleB'',
        ''[dev]'', ''# No assumable_role_id'',
        ''[staging]'', ''assumable_role_id = roleC'']
       None"

definition sharedRoleSource :: cred_source where
  \<comment> \<open>two profiles that name the same role\<close>
  "sharedRoleSource =
     Scanned [''[a]'', ''assumable_role_id = r'', ''[b]'', ''assumable_role_id = r''] None"

definition redeclaredSource :: cred_source where
  \<comment> \<open>a section name that is declared a second time, now without a role\<close>
  "redeclaredSource = Scanned [''[a]'', ''assumable_role_id = r'', ''[a]''] None"

definition opsRole :: string where
  "opsRole = ''arn:aws:iam::42:role/Ops''"

definition chainSource :: cred_source where
  \<comment> \<open>one profile that can authenticate and one that only lends its role\<close>
  "chainSource =
     Scanned
       [''[main]'', ''aws_access_key_id = AK1'', ''aws_secret_access_key = s1'',
        ''mfa_serial = arn:mfa/me'',
        ''[ops]'', ''assumable_role_id = arn:aws:iam::42:role/Ops'']
       None"

definition soloSource :: cred_source where
  \<comment> \<open>a single profile, complete and without a role\<close>
  "soloSource =
     Scanned
       [''[solo]'', ''aws_access_key_id = AK1'', ''aws_secret_access_key = s1'',
        ''mfa_serial = arn:mfa/solo'']
       None"

lemma loaded_mfaSource:
  "loaded mfaSource =
     \<lparr>credentials =
        [(''default'', zeroCredential\<lparr>ProfileName := ''default'', AccessKey := ''AK1'',
            AccessSecret := ''s1'', MfaSerial := ''arn:mfa/user''\<rparr>),
         (''int'', zeroCredential\<lparr>ProfileName := ''int'', AccessKey := ''AK2'',
            AccessSecret := ''s2'', AccountID := ''1234'', MfaSerial := ''arn:mfa/int''\<rparr>),
         (''no-mfa'', zeroCredential\<lparr>ProfileName := ''no-mfa'', AccessKey := ''AK3'',
            AccessSecret := ''s3''\<rparr>)],
      roleArnToProfile = []\<rparr>"
  by (simp add: mfaSource_def eval_simps)

lemma loaded_chainSource:
  "loaded chainSource =
     \<lparr>credentials =
        [(''main'', zeroCredential\<lparr>ProfileName := ''main'', AccessKey := ''AK1'',
            AccessSecret := ''s1'', MfaSerial := ''arn:mfa/me''\<rparr>),
         (''ops'', zeroCredential\<lparr>ProfileName := ''ops'', AssumableRoleID := opsRole\<rparr>)],
      roleArnToProfile = [(opsRole, ''ops'')]\<rparr>"
  by (simp add: chainSource_def opsRole_def eval_simps)

lemma loaded_soloSource:
  "loaded soloSource =
     \<lparr>credentials =
        [(''solo'', zeroCredential\<lparr>ProfileName := ''solo'', AccessKey := ''AK1'',
            AccessSecret := ''s1'', MfaSerial := ''arn:mfa/solo''\<rparr>)],
      roleArnToProfile = []\<rparr>"
  by (simp add: soloSource_def eval_simps)

lemma loaded_rolesSource:
  "loaded rolesSource =
     \<lparr>credentials =
        [(''prd'', zeroCredential\<lparr>ProfileName := ''prd'', AssumableRoleID := ''roleA''\<rparr>),
         (''int'', zeroCredential\<lparr>ProfileName := ''int'', AssumableRoleID := ''roleB''\<rparr>),
         (''dev'', zeroCredential\<lparr>ProfileName := ''dev''\<rparr>),
         (''staging'', zeroCredential\<lparr>ProfileName := ''staging'', AssumableRoleID := ''roleC''\<rparr>)],
      roleArnToProfile = [(''roleA'', ''prd''), (''roleB'', ''int''), (''roleC'', ''staging'')]\<rparr>"
  by (simp add: rolesSource_def eval_simps)

lemma loaded_sharedRoleSource:
  "loaded sharedRoleSource =
     \<lparr>credentials =
        [(''a'', zeroCredential\<lparr>ProfileName := ''a'', AssumableRoleID := ''r''\<rparr>),
         (''b'', zeroCredential\<lparr>ProfileName := ''b'', AssumableRoleID := ''r''\<rparr>)],
      roleArnToProfile = [(''r'', ''b'')]\<rparr>"
  by (simp add: sharedRoleSource_def eval_simps)

lemma loaded_redeclaredSource:
  "loaded redeclaredSource =
     \<lparr>credentials = [(''a'', zeroCredential\<lparr>ProfileName := ''a''\<rparr>)],
      roleArnToProfile = [(''r'', ''a'')]\<rparr>"
  by (simp add: redeclaredSource_def eval_simps)

subsection \<open>Valid profiles\<close>

lemma GetCredential_iff:
  assumes "distinct (map fst (credentials cr))"
  shows "GetCredential cr p = (c, True) \<longleftrightarrow> (p, c) \<in> set (credentials cr)"
  using map_of_eq_Some_iff [OF assms, of p c]
  by (cases "map_of (credentials cr) p") (auto simp: GetCredential_def)

text \<open>
  C2. After a load, \<^verbatim>\<open>GetValidProfiles\<close> returns exactly the names of the stored
  profiles whose access key, secret and MFA serial are all non-empty, each name once;
  a profile that lacks one of the three is not returned.
\<close>

theorem GetValidProfiles_loaded:
  "set (GetValidProfiles (loaded src)) =
     {p. \<exists>c. GetCredential (loaded src) p = (c, True) \<and>
              AccessKey c \<noteq> [] \<and> AccessSecret c \<noteq> [] \<and> MfaSerial c \<noteq> []} \<and>
   distinct (GetValidProfiles (loaded src))"
proof
  have d: "distinct (map fst (credentials (loaded src)))"
    by (rule distinct_credentials_loaded)
  show "set (GetValidProfiles (loaded src)) =
     {p. \<exists>c. GetCredential (loaded src) p = (c, True) \<and>
              AccessKey c \<noteq> [] \<and> AccessSecret c \<noteq> [] \<and> MfaSerial c \<noteq> []}"
    unfolding GetCredential_iff [OF d]
    by (force simp: GetValidProfiles_def)
  show "distinct (GetValidProfiles (loaded src))"
    unfolding GetValidProfiles_def using d by (rule distinct_map_filter)
qed

lemma GetValidProfiles_example:
  "GetValidProfiles (loaded mfaSource) = [''default'', ''int'']"
  by (simp add: loaded_mfaSource GetValidProfiles_def zeroCredential_def)

subsection \<open>Assumable roles\<close>

text \<open>
  C3. The role IDs returned for a profile are meant never to include that profile's
  own role ID: the loop's comment says that the asking profile "can't assume itself",
  and the test of the function reports "should not be able to assume its own role" as
  soon as a returned role equals the stored, non-empty role ID of the asking profile.
  The loop, however, leaves out the entry whose \<^emph>\<open>name\<close> is the asking profile, not the
  entries whose role ID equals that profile's role ID. With the two sections \<open>a\<close> and
  \<open>b\<close> that both name the role \<open>r\<close>, the profile \<open>a\<close> is stored with the role ID
  \<open>r\<close>, and the call for \<open>a\<close> returns the list \<open>[r]\<close>: the own role ID of \<open>a\<close> comes
  back through \<open>b\<close>.
\<close>

theorem GetAssumableRoles_returns_own_role:
  "GetCredential (loaded sharedRoleSource) ''a'' =
     (zeroCredential\<lparr>ProfileName := ''a'', AssumableRoleID := ''r''\<rparr>, True) \<and>
   AssumableRoleID (fst (GetCredential (loaded sharedRoleSource) ''a'')) = ''r'' \<and>
   GetAssumableRoles (loaded sharedRoleSource) ''a'' = [''r'']"
  by (simp add: loaded_sharedRoleSource GetCredential_def GetAssumableRoles_def
      zeroCredential_def)

text \<open>
  What the loop does return after a load: the non-empty role IDs of the stored
  profiles whose name differs from the asking one. The own role ID of the asking
  profile is absent whenever no other profile carries it, and for a name
  that is not stored, every non-empty role ID of the store is returned.
\<close>

lemma GetAssumableRoles_loaded:
  "set (GetAssumableRoles (loaded src) p) =
     {r. r \<noteq> [] \<and> (\<exists>q c. q \<noteq> p \<and> GetCredential (loaded src) q = (c, True) \<and>
                          AssumableRoleID c = r)} \<and>
   ((\<forall>q c. q \<noteq> p \<and> GetCredential (loaded src) q = (c, True) \<longrightarrow>
       AssumableRoleID c \<noteq> AssumableRoleID (fst (GetCredential (loaded src) p))) \<longrightarrow>
    AssumableRoleID (fst (GetCredential (loaded src) p))
      \<notin> set (GetAssumableRoles (loaded src) p)) \<and>
   (\<not> snd (GetCredential (loaded src) p) \<longrightarrow>
    set (GetAssumableRoles (loaded src) p) =
      {r. r \<noteq> [] \<and> (\<exists>q c. GetCredential (loaded src) q = (c, True) \<and>
                           AssumableRoleID c = r)})"
proof -
  have d: "distinct (map fst (credentials (loaded src)))"
    by (rule distinct_credentials_loaded)
  have roles: "set (GetAssumableRoles (loaded src) p) =
     {r. r \<noteq> [] \<and> (\<exists>q c. q \<noteq> p \<and> GetCredential (loaded src) q = (c, True) \<and>
                          AssumableRoleID c = r)}"
    unfolding GetCredential_iff [OF d]
    by (force simp: GetAssumableRoles_def)
  have own: "(\<forall>q c. q \<noteq> p \<and> GetCredential (loaded src) q = (c, True) \<longrightarrow>
       AssumableRoleID c \<noteq> AssumableRoleID (fst (GetCredential (loaded src) p))) \<longrightarrow>
    AssumableRoleID (fst (GetCredential (loaded src) p))
      \<notin> set (GetAssumableRoles (loaded src) p)"
    unfolding roles by blast
  have missing: "\<not> snd (GetCredential (loaded src) p) \<longrightarrow>
    set (GetAssumableRoles (loaded src) p) =
      {r. r \<noteq> [] \<and> (\<exists>q c. GetCredential (loaded src) q = (c, True) \<and>
                           AssumableRoleID c = r)}"
  proof
    assume "\<not> snd (GetCredential (loaded src) p)"
    then have "\<And>q c. GetCredential (loaded src) q = (c, True) \<Longrightarrow> q \<noteq> p"
      by auto
    then show "set (GetAssumableRoles (loaded src) p) =
      {r. r \<noteq> [] \<and> (\<exists>q c. GetCredential (loaded src) q = (c, True) \<and>
                           AssumableRoleID c = r)}"
      unfolding roles by blast
  qed
  from roles own missing show ?thesis by blast
qed


lemma GetAssumableRoles_loaded_example:
  "AssumableRoleID (fst (GetCredential (loaded rolesSource) ''prd'')) = ''roleA'' \<and>
   ''roleA'' \<notin> set (GetAssumableRoles (loaded rolesSource) ''prd'') \<and>
   set (GetAssumableRoles (loaded rolesSource) ''prd'') = {''roleB'', ''roleC''} \<and>
   \<not> snd (GetCredential (loaded rolesSource) ''nonexistent'') \<and>
   ''roleA'' \<in> set (GetAssumableRoles (loaded rolesSource) ''nonexistent'')"
proof -
  let ?cr = "loaded rolesSource"
  have own: "AssumableRoleID (fst (GetCredential ?cr ''prd'')) = ''roleA''"
    by (simp add: loaded_rolesSource GetCredential_def zeroCredential_def)
  have others: "\<forall>q c. q \<noteq> ''prd'' \<and> GetCredential ?cr q = (c, True) \<longrightarrow>
      AssumableRoleID c \<noteq> AssumableRoleID (fst (GetCredential ?cr ''prd''))"
    by (auto simp: loaded_rolesSource GetCredential_def zeroCredential_def split: if_splits)
  have absent: "\<not> snd (GetCredential ?cr ''nonexistent'')"
    by (simp add: loaded_rolesSource GetCredential_def)
  have prd: "GetCredential ?cr ''prd'' = (zeroCredential\<lparr>ProfileName := ''prd'',
      AssumableRoleID := ''roleA''\<rparr>, True)"
    by (simp add: loaded_rolesSource GetCredential_def)
  from GetAssumableRoles_loaded [of rolesSource "''prd''"] others
  have "AssumableRoleID (fst (GetCredential ?cr ''prd'')) \<notin> set (GetAssumableRoles ?cr ''prd'')"
    by blast
  with own have 1: "''roleA'' \<notin> set (GetAssumableRoles ?cr ''prd'')"
    by simp
  from GetAssumableRoles_loaded [of rolesSource "''nonexistent''"] absent
  have "set (GetAssumableRoles ?cr ''nonexistent'') =
      {r. r \<noteq> [] \<and> (\<exists>q c. GetCredential ?cr q = (c, True) \<and> AssumableRoleID c = r)}"
    by blast
  with prd have 2: "''roleA'' \<in> set (GetAssumableRoles ?cr ''nonexistent'')"
    by force
  have 3: "set (GetAssumableRoles ?cr ''prd'') = {''roleB'', ''roleC''}"
    by (auto simp: loaded_rolesSource GetAssumableRoles_def zeroCredential_def)
  from own 1 2 3 absent show ?thesis by blast
qed

subsection \<open>The reverse index from role to profile\<close>

lemma distinct_roleArnToProfile_fold:
  "distinct (map fst (roleArnToProfile cr)) \<Longrightarrow>
   distinct (map fst (roleArnToProfile (foldl (\<lambda>cr f. store f cr) cr log)))"
  by (induction log arbitrary: cr) (simp_all add: roleArnToProfile_store distinct_update)

lemma distinct_roleArnToProfile_loaded: "distinct (map fst (roleArnToProfile (loaded src)))"
  by (simp add: loaded_sections distinct_roleArnToProfile_fold NewCredentialReader_def)

lemma index_fold:
  "map_of (roleArnToProfile (foldl (\<lambda>cr f. store f cr) cr log)) r =
     (case find (\<lambda>f. fst f \<noteq> [] \<and> r \<noteq> [] \<and> AssumableRoleID (snd f) = r) (rev log) of
        None \<Rightarrow> map_of (roleArnToProfile cr) r
      | Some f \<Rightarrow> Some (fst f))"
proof (induction log rule: rev_induct)
  case Nil
  show ?case by simp
next
  case (snoc f log)
  show ?case
  proof (cases "fst f \<noteq> [] \<and> AssumableRoleID (snd f) \<noteq> []")
    case True
    with snoc show ?thesis
      by (auto simp: roleArnToProfile_store update_conv')
  next
    case False
    with snoc show ?thesis
      by (auto simp: roleArnToProfile_store)
  qed
qed

lemma find_SomeD: "find P xs = Some x \<Longrightarrow> x \<in> set xs \<and> P x"
  by (induction xs) (auto split: if_splits)

lemma find_sections:
  assumes "r \<noteq> []"
  shows "find (\<lambda>f. fst f \<noteq> [] \<and> r \<noteq> [] \<and> AssumableRoleID (snd f) = r) (rev (sections src)) =
         find (\<lambda>f. AssumableRoleID (snd f) = r) (rev (sections src))"
proof (rule find_cong)
  show "rev (sections src) = rev (sections src)" ..
next
  fix f
  assume "f \<in> set (rev (sections src))"
  then have "(fst f, snd f) \<in> set (sections src)" by simp
  then have "fst f \<noteq> []" by (rule sections_names)
  with assms show "(fst f \<noteq> [] \<and> r \<noteq> [] \<and> AssumableRoleID (snd f) = r) =
      (AssumableRoleID (snd f) = r)"
    by simp
qed

lemma index_loaded:
  "map_of (roleArnToProfile (loaded src)) r =
     (if r = [] then None
      else map_option fst (find (\<lambda>f. AssumableRoleID (snd f) = r) (rev (sections src))))"
proof (cases "r = []")
  case True
  have "find (\<lambda>f::string \<times> StaticCredential. False) (rev (sections src)) = None"
    by (simp add: find_None_iff)
  with True show ?thesis
    by (simp add: loaded_sections index_fold NewCredentialReader_def)
next
  case False
  have "map_of (roleArnToProfile (loaded src)) r =
      (case find (\<lambda>f. fst f \<noteq> [] \<and> r \<noteq> [] \<and> AssumableRoleID (snd f) = r)
              (rev (sections src)) of
         None \<Rightarrow> map_of (roleArnToProfile NewCredentialReader) r
       | Some f \<Rightarrow> Some (fst f))"
    unfolding loaded_sections by (rule index_fold)
  also have "\<dots> =
      (case find (\<lambda>f. AssumableRoleID (snd f) = r) (rev (sections src)) of
         None \<Rightarrow> map_of (roleArnToProfile NewCredentialReader) r
       | Some f \<Rightarrow> Some (fst f))"
    by (simp only: find_sections [OF False])
  finally show ?thesis
    using False by (simp add: NewCredentialReader_def split: option.splits)
qed

lemma credentials_fold_distinct:
  "distinct (map fst log) \<Longrightarrow> (p, c) \<in> set log \<Longrightarrow> p \<noteq> [] \<Longrightarrow>
   map_of (credentials (foldl (\<lambda>cr f. store f cr) cr log)) p = Some c"
proof (induction log rule: rev_induct)
  case Nil
  then show ?case by simp
next
  case (snoc f log)
  show ?case
  proof (cases "f = (p, c)")
    case True
    with snoc.prems show ?thesis
      by (simp add: credentials_store update_conv')
  next
    case False
    with snoc.prems have mem: "(p, c) \<in> set log" and d: "distinct (map fst log)"
      by simp_all
    from mem have "p \<in> set (map fst log)" by force
    with snoc.prems(1) have "fst f \<noteq> p" by auto
    with snoc.IH [OF d mem snoc.prems(3)] show ?thesis
      by (simp add: credentials_store update_conv')
  qed
qed

text \<open>
  C4, as the claim states it, fails on its last part. The reverse index is only ever
  added to. When a section name is declared a second time, the stored credential is
  replaced but the entry that the first declaration put into the index stays: the
  stored profile has no role ID and is nevertheless a value of the reverse index.
\<close>

theorem GetProfileByRoleArn_stale_counterexample:
  "snd (GetCredential (loaded redeclaredSource) ''a'') \<and>
   AssumableRoleID (fst (GetCredential (loaded redeclaredSource) ''a'')) = [] \<and>
   GetProfileByRoleArn (loaded redeclaredSource) ''r'' = ''a''"
  by (simp add: loaded_redeclaredSource GetCredential_def GetProfileByRoleArn_def
      zeroCredential_def)

text \<open>
  C4, amended. \<^verbatim>\<open>GetProfileByRoleArn\<close> answers from the sections saved during the
  load: for a non-empty role ID it returns the name of the last saved section with that
  role ID, and the empty string when no saved section has it; for the empty string it
  returns the empty string. A name is a value of the reverse index only if a section of
  that name was saved with that (non-empty) role ID. When every section name is saved
  once, each entry of the reverse index points to a stored profile whose role ID is the
  entry's key, so a stored profile without a role ID is not a value of the index.
\<close>

theorem GetProfileByRoleArn_loaded:
  "GetProfileByRoleArn (loaded src) [] = [] \<and>
   (r \<noteq> [] \<longrightarrow> GetProfileByRoleArn (loaded src) r = lastOwner r (sections src)) \<and>
   ((r, p) \<in> set (roleArnToProfile (loaded src)) \<longrightarrow>
      r \<noteq> [] \<and> (\<exists>c. (p, c) \<in> set (sections src) \<and> AssumableRoleID c = r)) \<and>
   (distinct (map fst (sections src)) \<and> (r, p) \<in> set (roleArnToProfile (loaded src)) \<longrightarrow>
      (\<exists>c. GetCredential (loaded src) p = (c, True) \<and> AssumableRoleID c = r \<and> r \<noteq> []))"
proof -
  have empty: "GetProfileByRoleArn (loaded src) [] = []"
    by (simp add: GetProfileByRoleArn_def index_loaded)
  have last: "r \<noteq> [] \<longrightarrow> GetProfileByRoleArn (loaded src) r = lastOwner r (sections src)"
    by (simp add: GetProfileByRoleArn_def index_loaded lastOwner_def split: option.splits)
  have saved: "r \<noteq> [] \<and> (\<exists>c. (p, c) \<in> set (sections src) \<and> AssumableRoleID c = r)"
    if "(r, p) \<in> set (roleArnToProfile (loaded src))"
  proof -
    from that have "map_of (roleArnToProfile (loaded src)) r = Some p"
      by (simp add: distinct_roleArnToProfile_loaded)
    then have ne: "r \<noteq> []"
      and "map_option fst (find (\<lambda>f. AssumableRoleID (snd f) = r) (rev (sections src))) = Some p"
      by (simp_all add: index_loaded split: if_splits)
    then obtain f where "find (\<lambda>f. AssumableRoleID (snd f) = r) (rev (sections src)) = Some f"
      and "fst f = p"
      by auto
    then have "f \<in> set (sections src)" "AssumableRoleID (snd f) = r" "fst f = p"
      by (auto dest: find_SomeD)
    then have "(p, snd f) \<in> set (sections src) \<and> AssumableRoleID (snd f) = r"
      by (cases f) auto
    with ne show ?thesis by blast
  qed
  have exact: "\<exists>c. GetCredential (loaded src) p = (c, True) \<and> AssumableRoleID c = r \<and> r \<noteq> []"
    if d: "distinct (map fst (sections src))"
      and m: "(r, p) \<in> set (roleArnToProfile (loaded src))"
  proof -
    from saved [OF m] obtain c where ne: "r \<noteq> []"
      and c: "(p, c) \<in> set (sections src)" "AssumableRoleID c = r"
      by blast
    from c(1) have "p \<noteq> []" by (rule sections_names)
    with d c(1) have "map_of (credentials (loaded src)) p = Some c"
      by (simp add: loaded_sections credentials_fold_distinct)
    then have "GetCredential (loaded src) p = (c, True)"
      by (simp add: GetCredential_def)
    with c(2) ne show ?thesis by blast
  qed
  from empty last saved exact show ?thesis by blast
qed

lemma sections_rolesSource:
  "sections rolesSource =
     [(''prd'', zeroCredential\<lparr>ProfileName := ''prd'', AssumableRoleID := ''roleA''\<rparr>),
      (''int'', zeroCredential\<lparr>ProfileName := ''int'', AssumableRoleID := ''roleB''\<rparr>),
      (''dev'', zeroCredential\<lparr>ProfileName := ''dev''\<rparr>),
      (''staging'', zeroCredential\<lparr>ProfileName := ''staging'', AssumableRoleID := ''roleC''\<rparr>)]"
  by (simp add: rolesSource_def sections_def flushed_def opensSection_def eval_simps)

theorem GetProfileByRoleArn_loaded_witness:
  "GetProfileByRoleArn (loaded rolesSource) ''roleA'' = ''prd'' \<and>
   lastOwner ''roleA'' (sections rolesSource) = ''prd'' \<and>
   (''roleA'', ''prd'') \<in> set (roleArnToProfile (loaded rolesSource)) \<and>
   distinct (map fst (sections rolesSource)) \<and>
   (\<exists>c. (''prd'', c) \<in> set (sections rolesSource) \<and> AssumableRoleID c = ''roleA'') \<and>
   (\<exists>c. GetCredential (loaded rolesSource) ''prd'' = (c, True) \<and>
        AssumableRoleID c = ''roleA'')"
proof -
  have ne: "''roleA'' \<noteq> []" by simp
  have m: "(''roleA'', ''prd'') \<in> set (roleArnToProfile (loaded rolesSource))"
    by (simp add: loaded_rolesSource)
  have d: "distinct (map fst (sections rolesSource))"
    by (simp add: sections_rolesSource)
  have o: "lastOwner ''roleA'' (sections rolesSource) = ''prd''"
    by (simp add: sections_rolesSource lastOwner_def zeroCredential_def)
  from GetProfileByRoleArn_loaded [of rolesSource "''roleA''" "''prd''"] ne m d o
  show ?thesis by simp
qed


section \<open>The AWS service\<close>

text \<open>
  \<^verbatim>\<open>core.AWSService\<close> (core/aws.go). A Go \<^verbatim>\<open>error\<close> is modelled by its message;
  \<^verbatim>\<open>fmt.Errorf("...: %w", err)\<close> is the prefix followed by the message of \<^verbatim>\<open>err\<close>.
  What the service does to its surroundings is explicit: the process environment, the
  files it writes and the list of external commands it has run make up a
  \<open>world\<close> that every operation takes and returns. What the surroundings answer is
  a parameter (\<open>collab\<close>): the result of running a command, of decoding a
  response and of writing a file.
\<close>

record Credentials =
  AccessKeyId :: string
  SecretAccessKey :: string
  SessionToken :: string
  Expiration :: string
  Profile :: string

datatype json_value = JNumber int | JString string

record world =
  env :: "string \<rightharpoonup> string"
  files :: "string \<rightharpoonup> string"
  calls :: "string list list"

record collab =
  runCmd :: "string list \<Rightarrow> string \<Rightarrow> world \<Rightarrow> error + string"
    \<comment> \<open>\<^verbatim>\<open>exec.Command(argv...)\<close> run with the given standard input: its error, or
        its output\<close>
  unmarshalSTS :: "string \<Rightarrow> error + Credentials"
    \<comment> \<open>\<^verbatim>\<open>json.Unmarshal\<close> into \<^verbatim>\<open>STSResponse\<close>, field \<^verbatim>\<open>Credentials\<close>\<close>
  unmarshalAssumeRole :: "string \<Rightarrow> error + Credentials"
    \<comment> \<open>\<^verbatim>\<open>json.Unmarshal\<close> into \<^verbatim>\<open>AssumeRoleResponse\<close>, field \<^verbatim>\<open>Credentials\<close>\<close>
  marshalIndent :: "(string \<times> json_value) list \<Rightarrow> error + string"
  writeFile :: "string \<Rightarrow> string \<Rightarrow> world \<Rightarrow> (error \<times> (string \<rightharpoonup> string)) option"
    \<comment> \<open>\<^verbatim>\<open>os.WriteFile\<close>: \<open>None\<close> when the file is written, else the error and
        the files as the failed write leaves them\<close>

record AWSService =
  credentialReader :: "CredentialReader option"
  attemptECRLogin :: bool

datatype 'a outcome = Returned 'a | Panicked nat nat
  \<comment> \<open>a call either returns, or panics with "index out of range [i] with length n"\<close>

definition quoted :: "string \<Rightarrow> string" where
  \<comment> \<open>\<^verbatim>\<open>'%s'\<close> in a format string\<close>
  "quoted s = CHR 0x27 # s @ [CHR 0x27]"

definition Getenv :: "world \<Rightarrow> string \<Rightarrow> string" where
  "Getenv w k = (case env w k of Some v \<Rightarrow> v | None \<Rightarrow> [])"

definition Setenv :: "string \<Rightarrow> string \<Rightarrow> world \<Rightarrow> world" where
  "Setenv k v w = w\<lparr>env := (env w)(k \<mapsto> v)\<rparr>"

definition ran :: "string list \<Rightarrow> world \<Rightarrow> world" where
  \<comment> \<open>the world after an external command has been run\<close>
  "ran argv w = w\<lparr>calls := calls w @ [argv]\<rparr>"

definition index :: "'a list \<Rightarrow> nat \<Rightarrow> 'a option" where
  \<comment> \<open>\<^verbatim>\<open>xs[i]\<close> on a slice: out of range it panics, which is \<open>None\<close> here\<close>
  "index xs i = (if i < length xs then Some (xs ! i) else None)"

definition GetCredentials :: "AWSService \<Rightarrow> string \<Rightarrow> error + StaticCredential" where
  "GetCredentials s profile =
     (case credentialReader s of
        None \<Rightarrow> Inl ''credential reader not initialized''
      | Some cr \<Rightarrow>
          (case GetCredential cr profile of
             (credential, True) \<Rightarrow> Inr credential
           | (credential, False) \<Rightarrow>
               Inl (''profile '' @ quoted profile @ '' not found in credentials'')))"

definition GetMFASerial :: "AWSService \<Rightarrow> string \<Rightarrow> error + string" where
  "GetMFASerial s profile =
     (case GetCredentials s profile of
        Inl e \<Rightarrow> Inl e
      | Inr creds \<Rightarrow>
          if MfaSerial creds = []
          then Inl (''MFA serial not configured for profile '' @ quoted profile)
          else Inr (MfaSerial creds))"

definition svcGetValidProfiles :: "AWSService \<Rightarrow> string list" where
  \<comment> \<open>\<^verbatim>\<open>AWSService.GetValidProfiles\<close>\<close>
  "svcGetValidProfiles s =
     (case credentialReader s of None \<Rightarrow> [] | Some cr \<Rightarrow> GetValidProfiles cr)"

definition svcGetAssumableRoles :: "AWSService \<Rightarrow> string \<Rightarrow> string list" where
  \<comment> \<open>\<^verbatim>\<open>AWSService.GetAssumableRoles\<close>\<close>
  "svcGetAssumableRoles s profile =
     (case credentialReader s of None \<Rightarrow> [] | Some cr \<Rightarrow> GetAssumableRoles cr profile)"

definition GetAssumedProfileName :: "AWSService \<Rightarrow> string \<Rightarrow> string" where
  "GetAssumedProfileName s roleArn =
     (case credentialReader s of None \<Rightarrow> [] | Some cr \<Rightarrow> GetProfileByRoleArn cr roleArn)"

definition sessionJSON :: "Credentials \<Rightarrow> (string \<times> json_value) list" where
  \<comment> \<open>the \<^verbatim>\<open>jsonData\<close> map of \<^verbatim>\<open>writeToJSONFile\<close>\<close>
  "sessionJSON creds =
     [(''Version'', JNumber 1),
      (''AccessKeyId'', JString (AccessKeyId creds)),
      (''SecretAccessKey'', JString (SecretAccessKey creds)),
      (''SessionToken'', JString (SessionToken creds)),
      (''Expiration'', JString (Expiration creds)),
      (''ProfileName'', JString (Profile creds))]"

definition writeToJSONFile :: "collab \<Rightarrow> Credentials \<Rightarrow> string \<Rightarrow> world \<Rightarrow> (error + string) \<times> world" where
  "writeToJSONFile c creds filePath w =
     (case marshalIndent c (sessionJSON creds) of
        Inl e \<Rightarrow> (Inl (''failed to marshal JSON: '' @ e), w)
      | Inr jsonBytes \<Rightarrow>
          (case writeFile c filePath jsonBytes w of
             Some (e, left) \<Rightarrow> (Inl (''failed to write JSON file: '' @ e), w\<lparr>files := left\<rparr>)
           | None \<Rightarrow> (Inr filePath, w\<lparr>files := (files w)(filePath \<mapsto> jsonBytes)\<rparr>)))"

definition publishEnv :: "Credentials \<Rightarrow> string \<Rightarrow> world \<Rightarrow> world" where
  \<comment> \<open>the four \<^verbatim>\<open>os.Setenv\<close> calls that open \<^verbatim>\<open>persistCredentials\<close>\<close>
  "publishEnv creds profile w =
     Setenv ''AWS_PROFILE'' profile
       (Setenv ''AWS_SESSION_TOKEN'' (SessionToken creds)
          (Setenv ''AWS_SECRET_ACCESS_KEY'' (SecretAccessKey creds)
             (Setenv ''AWS_ACCESS_KEY_ID'' (AccessKeyId creds) w)))"

definition sessionToken :: "Credentials \<Rightarrow> string \<Rightarrow> Credentials" where
  \<comment> \<open>the \<^verbatim>\<open>token\<close> that \<^verbatim>\<open>persistCredentials\<close> hands to the writer\<close>
  "sessionToken creds profile =
     \<lparr>AccessKeyId = AccessKeyId creds,
      SecretAccessKey = SecretAccessKey creds,
      SessionToken = SessionToken creds,
      Expiration = Expiration creds,
      Profile = profile\<rparr>"

definition persistCredentials :: "collab \<Rightarrow> Credentials \<Rightarrow> string \<Rightarrow> world \<Rightarrow> (error + bool) \<times> world" where
  "persistCredentials c creds profile w =
     (case writeToJSONFile c (sessionToken creds profile) ''/tmp/aws-session.json''
             (publishEnv creds profile w) of
        (Inl e, w') \<Rightarrow> (Inl (''failed to write credentials to JSON file: '' @ e), w')
      | (Inr path, w') \<Rightarrow> (Inr True, w'))"

definition sessionTokenArgv :: "string \<Rightarrow> string \<Rightarrow> string \<Rightarrow> string list" where
  "sessionTokenArgv profile mfaSerial mfaCode =
     [''aws'', ''sts'', ''get-session-token'', ''--duration'', ''86400'',
      ''--serial-number'', mfaSerial, ''--token-code'', mfaCode, ''--profile'', profile]"

definition GetSessionToken :: "collab \<Rightarrow> AWSService \<Rightarrow> string \<Rightarrow> string \<Rightarrow> world \<Rightarrow> (error + bool) \<times> world" where
  "GetSessionToken c s profile mfaCode w =
     (case GetMFASerial s profile of
        Inl e \<Rightarrow> (Inl e, w)
      | Inr mfaSerial \<Rightarrow>
          (case runCmd c (sessionTokenArgv profile mfaSerial mfaCode) [] w of
             Inl e \<Rightarrow>
               (Inl (''failed to get AWS session token: '' @ e),
                ran (sessionTokenArgv profile mfaSerial mfaCode) w)
           | Inr output \<Rightarrow>
               (case unmarshalSTS c output of
                  Inl e \<Rightarrow>
                    (Inl (''failed to parse STS response: '' @ e),
                     ran (sessionTokenArgv profile mfaSerial mfaCode) w)
                | Inr creds \<Rightarrow>
                    persistCredentials c creds profile
                      (ran (sessionTokenArgv profile mfaSerial mfaCode) w))))"

definition assumeRoleArgv :: "string \<Rightarrow> string list" where
  "assumeRoleArgv roleArn =
     [''aws'', ''sts'', ''assume-role'', ''--role-arn'', TrimSpace roleArn,
      ''--role-session-name'', ''aws-login-session'']"

definition AssumeRole :: "collab \<Rightarrow> string \<Rightarrow> string \<Rightarrow> world \<Rightarrow> (error + bool) \<times> world" where
  "AssumeRole c profile roleArn w =
     (case runCmd c (assumeRoleArgv roleArn) [] w of
        Inl e \<Rightarrow>
          (Inl (''failed to assume role '' @ roleArn @ '': '' @ e), ran (assumeRoleArgv roleArn) w)
      | Inr output \<Rightarrow>
          (case unmarshalAssumeRole c output of
             Inl e \<Rightarrow>
               (Inl (''failed to parse assume-role response: '' @ e),
                ran (assumeRoleArgv roleArn) w)
           | Inr creds \<Rightarrow>
               persistCredentials c creds profile (ran (assumeRoleArgv roleArn) w)))"

definition ecrPasswordArgv :: "string list" where
  "ecrPasswordArgv = [''aws'', ''ecr'', ''get-login-password'', ''--region'', ''eu-west-2'']"

definition dockerLoginArgv :: "string \<Rightarrow> string list" where
  "dockerLoginArgv accountID =
     [''docker'', ''login'', ''--username'', ''AWS'', ''--password-stdin'',
      accountID @ ''.dkr.ecr.eu-west-2.amazonaws.com'']"

definition ecrAccountID :: "StaticCredential \<Rightarrow> string option" where
  \<comment> \<open>the account ID that \<^verbatim>\<open>LoginToECR\<close> logs in to: the configured one, or else the
      fifth colon-separated field of the role ARN, read by index\<close>
  "ecrAccountID creds =
     (if AccountID creds = []
      then index (Split (AssumableRoleID creds) (CHR '':'')) 4
      else Some (AccountID creds))"

definition LoginToECR :: "collab \<Rightarrow> AWSService \<Rightarrow> world \<Rightarrow> error option outcome \<times> world" where
  "LoginToECR c s w =
     (if \<not> attemptECRLogin s
      then (Returned (Some ''attempt to login to ECR is disabled''), w)
      else
        (case GetCredentials s (Getenv w ''AWS_PROFILE'') of
           Inl e \<Rightarrow> (Returned (Some (''failed to get credentials: '' @ e)), w)
         | Inr creds \<Rightarrow>
             (case runCmd c ecrPasswordArgv [] w of
                Inl e \<Rightarrow>
                  (Returned (Some (''failed to get ECR login password: '' @ e)),
                   ran ecrPasswordArgv w)
              | Inr password \<Rightarrow>
                  (case ecrAccountID creds of
                     None \<Rightarrow>
                       (Panicked 4 (length (Split (AssumableRoleID creds) (CHR '':''))),
                        ran ecrPasswordArgv w)
                   | Some accountID \<Rightarrow>
                       (case runCmd c (dockerLoginArgv accountID) password
                               (ran ecrPasswordArgv w) of
                          Inl e \<Rightarrow>
                            (Returned (Some (''failed to login to ECR: '' @ e)),
                             ran (dockerLoginArgv accountID) (ran ecrPasswordArgv w))
                        | Inr output \<Rightarrow>
                            (Returned None,
                             ran (dockerLoginArgv accountID) (ran ecrPasswordArgv w)))))))"

section \<open>Authentication drivers\<close>

text \<open>
  Package \<^verbatim>\<open>auth_drivers\<close>: the driver names and their parser (factory.go), the manual
  driver and the 1Password driver. \<^verbatim>\<open>strings.ToLower\<close> lowers the bytes of an ASCII
  string itself and hands any other string to the Unicode case mapping, which is a
  parameter here (\<open>ulower\<close>).
\<close>

datatype AuthDriverName = AuthDriverManual | AuthDriver1Password | AuthDriverUnknown

fun driverString :: "AuthDriverName \<Rightarrow> string" where
  \<comment> \<open>\<^verbatim>\<open>AuthDriverName.String\<close>\<close>
  "driverString AuthDriverManual = ''manual''"
| "driverString AuthDriver1Password = ''1password''"
| "driverString AuthDriverUnknown = ''unknown''"







datatype driver = ManualDriver | OnePasswordDriver string string
  \<comment> \<open>the 1Password driver carries its vault key and its profile\<close>

definition NewOnePasswordDriver :: "CredentialReader \<Rightarrow> string \<Rightarrow> driver" where
  "NewOnePasswordDriver cr profile =
     (case GetCredential cr profile of
        (credential, True) \<Rightarrow> OnePasswordDriver (VaultKey credential) profile
      | (credential, False) \<Rightarrow> OnePasswordDriver [] profile)"

fun YieldsMFACode :: "driver \<Rightarrow> bool" where
  "YieldsMFACode ManualDriver = False"
| "YieldsMFACode (OnePasswordDriver vaultKey profile) = True"

definition opVersionArgv :: "string list" where
  "opVersionArgv = [''op'', ''--version'']"

definition opInstalled :: "collab \<Rightarrow> world \<Rightarrow> bool \<times> world" where
  \<comment> \<open>\<^verbatim>\<open>OnePasswordDriver.IsInstalled\<close>: the version command runs without error\<close>
  "opInstalled c w =
     (case runCmd c opVersionArgv [] w of
        Inl e \<Rightarrow> (False, ran opVersionArgv w)
      | Inr output \<Rightarrow> (True, ran opVersionArgv w))"

fun IsInstalled :: "collab \<Rightarrow> driver \<Rightarrow> world \<Rightarrow> bool \<times> world" where
  "IsInstalled c ManualDriver w = (True, w)"
| "IsInstalled c (OnePasswordDriver vaultKey profile) w = opInstalled c w"

definition opOtpArgv :: "string \<Rightarrow> string list" where
  "opOtpArgv vaultKey = [''op'', ''item'', ''get'', vaultKey, ''--otp'']"

fun driverGetMFACode :: "collab \<Rightarrow> driver \<Rightarrow> world \<Rightarrow> (error + string) \<times> world" where
  \<comment> \<open>the method \<^verbatim>\<open>GetMFACode\<close> of the two drivers\<close>
  "driverGetMFACode c ManualDriver w = (Inl ''manual driver cannot yield MFA code'', w)"
| "driverGetMFACode c (OnePasswordDriver vaultKey profile) w =
     (case runCmd c (opOtpArgv vaultKey) [] w of
        Inl e \<Rightarrow>
          (Inl (''failed to retrieve MFA code from 1Password with vault key '' @ vaultKey
                  @ '': '' @ e),
           ran (opOtpArgv vaultKey) w)
      | Inr output \<Rightarrow>
          (if TrimSpace output = []
           then (Inl ''empty MFA code from 1Password'', ran (opOtpArgv vaultKey) w)
           else (Inr (TrimSpace output), ran (opOtpArgv vaultKey) w)))"

definition GetDriver :: "collab \<Rightarrow> CredentialReader \<Rightarrow> AuthDriverName \<Rightarrow> string \<Rightarrow> world \<Rightarrow> (error + driver) \<times> world" where
  "GetDriver c cr driverType profile w =
     (case driverType of
        AuthDriverManual \<Rightarrow> (Inr ManualDriver, w)
      | AuthDriver1Password \<Rightarrow>
          (case IsInstalled c (NewOnePasswordDriver cr profile) w of
             (False, w') \<Rightarrow> (Inl ''1Password CLI is not installed or not available in PATH'', w')
           | (True, w') \<Rightarrow> (Inr (NewOnePasswordDriver cr profile), w'))
      | AuthDriverUnknown \<Rightarrow>
          (Inl (''unknown auth driver: '' @ driverString driverType), w))"

definition GetMFACode :: "collab \<Rightarrow> driver option \<Rightarrow> world \<Rightarrow> (error + string) \<times> world" where
  \<comment> \<open>\<^verbatim>\<open>AWSService.GetMFACode\<close>\<close>
  "GetMFACode c authDriver w =
     (case authDriver of
        None \<Rightarrow> (Inl ''auth driver not initialized'', w)
      | Some d \<Rightarrow>
          if \<not> YieldsMFACode d then (Inl ''auth driver does not yield MFA code'', w)
          else driverGetMFACode c d w)"


section \<open>The flow orchestrator\<close>

text \<open>
  \<^verbatim>\<open>ui.UIManager\<close>, with the list models of package \<^verbatim>\<open>lists\<close>. The repository
  holds two revisions of the manager, one in \<^verbatim>\<open>src/ui/ui.go\<close> and one in
  \<^verbatim>\<open>src/unnamed/part_004\<close>. For the flow they differ in four places, all marked
  below: \<^verbatim>\<open>ui.go\<close> selects a single valid profile by itself when the profile step
  is initialised, it also leaves the profile step on any key when there is a single
  valid profile, it starts a spinner and a message timer next to the authentication
  command, and it answers their tick messages. Every definition that depends on the
  revision takes it as its first argument.

  The orchestrator is a Bubble Tea model: \<^verbatim>\<open>Update\<close> takes a message and returns the
  next command; the runtime runs commands in the background and feeds the messages they
  produce back into \<^verbatim>\<open>Update\<close>. Messages and commands are datatypes here, one
  constructor for each message type and for each closure that the code returns. A
  closure reads the manager when it is run, not when it is made, so a command
  carries no copy of the manager's fields.

  The widgets of the Bubbles library are outside the repository. Of a list only its
  items and its cursor are kept, of the text input only its value; how a key moves the
  cursor or edits the value is a parameter (\<open>widgets\<close>). The fields that only feed
  \<^verbatim>\<open>View\<close> (spinner, processing messages, exit message) are left out.
\<close>

datatype revision = UiGo | Part004
  \<comment> \<open>\<open>UiGo\<close>: \<^verbatim>\<open>src/ui/ui.go\<close>; \<open>Part004\<close>: \<^verbatim>\<open>src/unnamed/part_004\<close>\<close>

datatype FlowStep =
    StepProfileSelection | StepDriverSelection | StepRoleSelection | StepMFAInput
  | StepProcessing | StepDone | StepQuit

datatype step_data = StringData string | DriverData AuthDriverName

datatype msg =
    WindowSizeMsg int int
  | KeyMsg string
  | SpinnerTickMsg
  | ProcessingTickMsg
  | StepCompleteMsg FlowStep step_data
  | ErrorMsg error
  | DoneMsg bool
  | QuitMsg
  | TeaQuitMsg
  | OtherMsg

datatype cmd =
    NoCmd
  | EmitQuit
  | EmitStepComplete FlowStep
  | TryAutoMFA
  | ProcessAuthentication
  | TeaQuit
  | ClearStepTick
  | ProcessingTick
  | SpinnerTick
  | WidgetCmd
  | Batch "cmd list"

record widgets =
  listKey :: "string \<Rightarrow> nat \<Rightarrow> nat \<Rightarrow> nat"
    \<comment> \<open>the cursor of a list after a key, from the old cursor and the number of items\<close>
  inputKey :: "string \<Rightarrow> string \<Rightarrow> string"
    \<comment> \<open>the value of the text input after a key\<close>

record 'a listw =
  items :: "'a list"
  cursor :: nat

definition newList :: "'a list \<Rightarrow> 'a listw" where
  "newList xs = \<lparr>items = xs, cursor = 0\<rparr>"

definition SelectedItem :: "'a listw \<Rightarrow> 'a option" where
  "SelectedItem l = index (items l) (cursor l)"

fun listUpdate :: "widgets \<Rightarrow> msg \<Rightarrow> 'a listw \<Rightarrow> 'a listw" where
  "listUpdate wd (KeyMsg k) l = l\<lparr>cursor := listKey wd k (cursor l) (length (items l))\<rparr>"
| "listUpdate wd m l = l"

subsection \<open>The selection lists\<close>

record ProfileListModel =
  profileList :: "string listw"
  profileChoice :: string
  profileSelected :: bool

definition NewProfileListModel :: "AWSService \<Rightarrow> ProfileListModel" where
  "NewProfileListModel s =
     \<lparr>profileList = newList (svcGetValidProfiles s), profileChoice = [],
      profileSelected = False\<rparr>"

fun ProfileUpdate :: "widgets \<Rightarrow> msg \<Rightarrow> ProfileListModel \<Rightarrow> ProfileListModel \<times> cmd" where
  "ProfileUpdate wd (WindowSizeMsg x y) m = (m, NoCmd)"
| "ProfileUpdate wd (KeyMsg k) m =
     (let m1 = (if k = ''enter''
                then (case SelectedItem (profileList m) of
                        Some i \<Rightarrow> m\<lparr>profileChoice := i, profileSelected := True\<rparr>
                      | None \<Rightarrow> m)
                else m)
      in (m1\<lparr>profileList := listUpdate wd (KeyMsg k) (profileList m1)\<rparr>, WidgetCmd))"
| "ProfileUpdate wd other m =
     (m\<lparr>profileList := listUpdate wd other (profileList m)\<rparr>, WidgetCmd)"

record DriverListModel =
  driverList :: "AuthDriverName listw"
  driverChoice :: AuthDriverName
  driverSelected :: bool

definition NewDriverListModel :: "collab \<Rightarrow> world \<Rightarrow> DriverListModel \<times> world" where
  \<comment> \<open>the manual driver is always offered, 1Password when its CLI answers\<close>
  "NewDriverListModel c w =
     (case opInstalled c w of
        (available, w') \<Rightarrow>
          (\<lparr>driverList =
              newList (AuthDriverManual # (if available then [AuthDriver1Password] else [])),
            driverChoice = AuthDriverManual, driverSelected = False\<rparr>, w'))"

fun DriverUpdate :: "widgets \<Rightarrow> msg \<Rightarrow> DriverListModel \<Rightarrow> DriverListModel \<times> cmd" where
  "DriverUpdate wd (WindowSizeMsg x y) m = (m, NoCmd)"
| "DriverUpdate wd (KeyMsg k) m =
     (case (if k = ''enter'' then SelectedItem (driverList m) else None) of
        Some i \<Rightarrow> (m\<lparr>driverChoice := i, driverSelected := True\<rparr>, NoCmd)
      | None \<Rightarrow> (m\<lparr>driverList := listUpdate wd (KeyMsg k) (driverList m)\<rparr>, WidgetCmd))"
| "DriverUpdate wd other m =
     (m\<lparr>driverList := listUpdate wd other (driverList m)\<rparr>, WidgetCmd)"

text \<open>
  The role list exists in two revisions that differ in the labels of the items only;
  the labels below are those of the revision with descriptions.
\<close>

record RoleItem =
  roleTitle :: string
  roleArn :: string
  roleDescription :: string

record RoleListModel =
  roleList :: "RoleItem listw"
  roleChoice :: string
  roleSelected :: bool

definition lastField :: "string \<Rightarrow> string" where
  \<comment> \<open>\<^verbatim>\<open>roleParts[len(roleParts)-1]\<close>; \<^verbatim>\<open>strings.Split\<close> never returns an empty slice\<close>
  "lastField r = last (Split r (CHR '':''))"

definition NewRoleListModel :: "AWSService \<Rightarrow> string \<Rightarrow> RoleListModel" where
  "NewRoleListModel s p =
     \<lparr>roleList =
        newList
          (\<lparr>roleTitle = p, roleArn = [],
            roleDescription = ''Continue as the current user: ['' @ p @ '']''\<rparr>
           # map (\<lambda>r. \<lparr>roleTitle = GetAssumedProfileName s r, roleArn = r,
                         roleDescription = ''Assume: ['' @ lastField r @ '']''\<rparr>)
               (svcGetAssumableRoles s p)),
      roleChoice = [], roleSelected = False\<rparr>"

fun RoleUpdate :: "widgets \<Rightarrow> msg \<Rightarrow> RoleListModel \<Rightarrow> RoleListModel \<times> cmd" where
  "RoleUpdate wd (WindowSizeMsg x y) m = (m, NoCmd)"
| "RoleUpdate wd (KeyMsg k) m =
     (if k = ''ctrl+c'' \<or> k = ''esc'' then (m, TeaQuit)
      else
        (case (if k = ''enter'' then SelectedItem (roleList m) else None) of
           Some i \<Rightarrow> (m\<lparr>roleChoice := roleArn i, roleSelected := True\<rparr>, NoCmd)
         | None \<Rightarrow> (m\<lparr>roleList := listUpdate wd (KeyMsg k) (roleList m)\<rparr>, WidgetCmd)))"
| "RoleUpdate wd other m =
     (m\<lparr>roleList := listUpdate wd other (roleList m)\<rparr>, WidgetCmd)"

subsection \<open>The manager\<close>

record AuthFlowResult =
  User :: string
  ECRAuth :: bool

record UIManager =
  awsService :: AWSService
  currentStep :: FlowStep
  profile :: string
  authDriverName :: AuthDriverName
  selectedRole :: string
  mfaCode :: string
  profileModel :: "ProfileListModel option"
  driverModel :: "DriverListModel option"
  roleModel :: "RoleListModel option"
  mfaInput :: string
  sessionResult :: AuthFlowResult
  err :: "error option"
  success :: bool
  step :: string
  width :: int
  height :: int

definition Start :: "AWSService \<Rightarrow> AuthDriverName \<Rightarrow> UIManager" where
  "Start s d =
     \<lparr>awsService = s, currentStep = StepProfileSelection, profile = [],
      authDriverName = d, selectedRole = [], mfaCode = [],
      profileModel = None, driverModel = None, roleModel = None, mfaInput = [],
      sessionResult = \<lparr>User = [], ECRAuth = False\<rparr>, err = None, success = False,
      step = [], width = 0, height = 0\<rparr>"

definition initStepMFAInput :: "UIManager \<Rightarrow> world \<Rightarrow> UIManager \<times> cmd \<times> world" where
  \<comment> \<open>\<^verbatim>\<open>initCurrentStep\<close>, case \<^verbatim>\<open>StepMFAInput\<close>\<close>
  "initStepMFAInput u w =
     (if authDriverName u \<noteq> AuthDriverManual then (u, TryAutoMFA, w) else (u, NoCmd, w))"

definition initCurrentStep :: "revision \<Rightarrow> collab \<Rightarrow> UIManager \<Rightarrow> world \<Rightarrow> UIManager \<times> cmd \<times> world" where
  \<comment> \<open>the call of \<^verbatim>\<open>initCurrentStep\<close> from within case \<^verbatim>\<open>StepRoleSelection\<close> enters
      case \<^verbatim>\<open>StepMFAInput\<close>; the test for a single profile and the batch are in
      \<^verbatim>\<open>ui.go\<close> only\<close>
  "initCurrentStep rv c u w =
     (case currentStep u of
        StepProfileSelection \<Rightarrow>
          (if rv = UiGo \<and> length (svcGetValidProfiles (awsService u)) = 1
           then (u\<lparr>profileModel := Some (NewProfileListModel (awsService u)),
                   profile := svcGetValidProfiles (awsService u) ! 0\<rparr>,
                 EmitStepComplete StepProfileSelection, w)
           else (u\<lparr>profileModel := Some (NewProfileListModel (awsService u))\<rparr>, NoCmd, w))
      | StepDriverSelection \<Rightarrow>
          (case NewDriverListModel c w of
             (m, w') \<Rightarrow> (u\<lparr>driverModel := Some m\<rparr>, NoCmd, w'))
      | StepRoleSelection \<Rightarrow>
          (if length (svcGetAssumableRoles (awsService u) (profile u)) = 0
           then initStepMFAInput (u\<lparr>currentStep := StepMFAInput\<rparr>) w
           else (u\<lparr>roleModel := Some (NewRoleListModel (awsService u) (profile u))\<rparr>,
                 NoCmd, w))
      | StepMFAInput \<Rightarrow> initStepMFAInput u w
      | StepProcessing \<Rightarrow>
          (if rv = UiGo
           then (u, Batch [SpinnerTick, ProcessAuthentication, ProcessingTick], w)
           else (u, ProcessAuthentication, w))
      | StepDone \<Rightarrow> (u, NoCmd, w)
      | StepQuit \<Rightarrow> (u, NoCmd, w))"

definition handleCurrentStep :: "revision \<Rightarrow> widgets \<Rightarrow> string \<Rightarrow> UIManager \<Rightarrow> UIManager \<times> cmd" where
  \<comment> \<open>the test for a single profile is in \<^verbatim>\<open>ui.go\<close> only\<close>
  "handleCurrentStep rv wd k u =
     (case currentStep u of
        StepProfileSelection \<Rightarrow>
          (case profileModel u of
             None \<Rightarrow> (u, NoCmd)
           | Some m \<Rightarrow>
               (case ProfileUpdate wd (KeyMsg k) m of
                  (m', cm) \<Rightarrow>
                    if profileSelected m' \<or>
                       (rv = UiGo \<and> length (svcGetValidProfiles (awsService u)) = 1)
                    then (u\<lparr>profileModel := Some m', profile := profileChoice m'\<rparr>,
                          EmitStepComplete StepProfileSelection)
                    else (u\<lparr>profileModel := Some m'\<rparr>, cm)))
      | StepDriverSelection \<Rightarrow>
          (case driverModel u of
             None \<Rightarrow> (u, NoCmd)
           | Some m \<Rightarrow>
               (case DriverUpdate wd (KeyMsg k) m of
                  (m', cm) \<Rightarrow>
                    if driverSelected m'
                    then (u\<lparr>driverModel := Some m', authDriverName := driverChoice m'\<rparr>,
                          EmitStepComplete StepDriverSelection)
                    else (u\<lparr>driverModel := Some m'\<rparr>, cm)))
      | StepRoleSelection \<Rightarrow>
          (case roleModel u of
             None \<Rightarrow> (u, NoCmd)
           | Some m \<Rightarrow>
               (case RoleUpdate wd (KeyMsg k) m of
                  (m', cm) \<Rightarrow>
                    if roleSelected m'
                    then (u\<lparr>roleModel := Some m', selectedRole := roleChoice m'\<rparr>,
                          EmitStepComplete StepRoleSelection)
                    else (u\<lparr>roleModel := Some m'\<rparr>, cm)))
      | StepMFAInput \<Rightarrow>
          (if authDriverName u = AuthDriverManual then
             (if k = ''enter'' then
                (if ValidateMFACode (mfaInput u)
                 then (u\<lparr>mfaCode := mfaInput u\<rparr>, EmitStepComplete StepMFAInput)
                 else (u\<lparr>step := ''Invalid MFA code - must be 6 digits'', mfaInput := []\<rparr>,
                       ClearStepTick))
              else (u\<lparr>mfaInput := inputKey wd k (mfaInput u)\<rparr>, WidgetCmd))
           else (u, NoCmd))
      | StepProcessing \<Rightarrow> (u, NoCmd)
      | StepDone \<Rightarrow> (u, NoCmd)
      | StepQuit \<Rightarrow> (u, NoCmd))"

definition handleStepComplete :: "revision \<Rightarrow> collab \<Rightarrow> FlowStep \<Rightarrow> step_data \<Rightarrow> UIManager \<Rightarrow> world \<Rightarrow> UIManager \<times> cmd \<times> world" where
  "handleStepComplete rv c st d u w =
     (case st of
        StepProfileSelection \<Rightarrow> initCurrentStep rv c (u\<lparr>currentStep := StepDriverSelection\<rparr>) w
      | StepDriverSelection \<Rightarrow>
          (case d of
             DriverData dn \<Rightarrow>
               initCurrentStep rv c (u\<lparr>currentStep := StepRoleSelection, authDriverName := dn\<rparr>) w
           | StringData x \<Rightarrow> initCurrentStep rv c (u\<lparr>currentStep := StepRoleSelection\<rparr>) w)
      | StepRoleSelection \<Rightarrow> initCurrentStep rv c (u\<lparr>currentStep := StepMFAInput\<rparr>) w
      | StepMFAInput \<Rightarrow> initCurrentStep rv c (u\<lparr>currentStep := StepProcessing\<rparr>) w
      | StepProcessing \<Rightarrow> (u, NoCmd, w)
      | StepDone \<Rightarrow> (u, NoCmd, w)
      | StepQuit \<Rightarrow> (u, NoCmd, w))"

fun Update :: "revision \<Rightarrow> widgets \<Rightarrow> collab \<Rightarrow> msg \<Rightarrow> UIManager \<Rightarrow> world \<Rightarrow> UIManager \<times> cmd \<times> world" where
  "Update rv wd c (WindowSizeMsg x y) u w = (u\<lparr>width := x, height := y\<rparr>, NoCmd, w)"
| "Update rv wd c (KeyMsg k) u w =
     (if k = ''ctrl+c'' then (u, EmitQuit, w)
      else (case handleCurrentStep rv wd k u of (u', cm) \<Rightarrow> (u', cm, w)))"
| "Update rv wd c SpinnerTickMsg u w = (if rv = UiGo then (u, SpinnerTick, w) else (u, NoCmd, w))"
| "Update rv wd c ProcessingTickMsg u w =
     (if rv = UiGo then (u, ProcessingTick, w) else (u, NoCmd, w))"
| "Update rv wd c (StepCompleteMsg st d) u w = handleStepComplete rv c st d u w"
| "Update rv wd c (ErrorMsg e) u w =
     (u\<lparr>err := Some e, currentStep := StepDone\<rparr>, EmitQuit, w)"
| "Update rv wd c (DoneMsg b) u w =
     (u\<lparr>success := b, currentStep := StepDone\<rparr>, EmitQuit, w)"
| "Update rv wd c QuitMsg u w = (u, TeaQuit, w)"
| "Update rv wd c TeaQuitMsg u w = (u\<lparr>currentStep := StepQuit\<rparr>, NoCmd, w)"
| "Update rv wd c OtherMsg u w = (u, NoCmd, w)"

subsection \<open>What the commands do when the runtime runs them\<close>

definition globalReader :: "AWSService \<Rightarrow> CredentialReader" where
  \<comment> \<open>\<^verbatim>\<open>core.GetCredentialReader()\<close>: the one reader of the process, which is the
      service's reader\<close>
  "globalReader s = (case credentialReader s of Some cr \<Rightarrow> cr | None \<Rightarrow> NewCredentialReader)"

definition tryAutoMFA :: "collab \<Rightarrow> UIManager \<Rightarrow> world \<Rightarrow> msg \<times> UIManager \<times> world" where
  "tryAutoMFA c u w =
     (case GetDriver c (globalReader (awsService u)) (authDriverName u) (profile u) w of
        (Inl e, w1) \<Rightarrow> (ErrorMsg e, u, w1)
      | (Inr d, w1) \<Rightarrow>
          (case GetMFACode c (Some d) w1 of
             (Inl e, w2) \<Rightarrow> (ErrorMsg e, u, w2)
           | (Inr code, w2) \<Rightarrow>
               (StepCompleteMsg StepMFAInput (StringData code), u\<lparr>mfaCode := code\<rparr>, w2)))"

definition attemptECR :: "collab \<Rightarrow> UIManager \<Rightarrow> world \<Rightarrow> msg outcome \<times> UIManager \<times> world" where
  \<comment> \<open>the tail of \<^verbatim>\<open>processAuthentication\<close>, from "Set user to profile name" on\<close>
  "attemptECR c u w =
     (case LoginToECR c (awsService u) w of
        (Panicked i n, w') \<Rightarrow>
          (Panicked i n, u\<lparr>sessionResult := (sessionResult u)\<lparr>User := profile u\<rparr>\<rparr>, w')
      | (Returned (Some e), w') \<Rightarrow>
          (Returned (DoneMsg True),
           u\<lparr>sessionResult := \<lparr>User = profile u, ECRAuth = False\<rparr>\<rparr>, w')
      | (Returned None, w') \<Rightarrow>
          (Returned (DoneMsg True),
           u\<lparr>sessionResult := \<lparr>User = profile u, ECRAuth = True\<rparr>\<rparr>, w'))"

definition processAuthentication :: "collab \<Rightarrow> UIManager \<Rightarrow> world \<Rightarrow> msg outcome \<times> UIManager \<times> world" where
  "processAuthentication c u w =
     (case GetSessionToken c (awsService u) (profile u) (mfaCode u) w of
        (Inl e, w1) \<Rightarrow> (Returned (ErrorMsg e), u, w1)
      | (Inr ok, w1) \<Rightarrow>
          if selectedRole u \<noteq> [] then
            (case AssumeRole c (GetAssumedProfileName (awsService u) (selectedRole u))
                    (selectedRole u) w1 of
               (Inl e, w2) \<Rightarrow> (Returned (ErrorMsg e), u, w2)
             | (Inr ok', w2) \<Rightarrow>
                 attemptECR c
                   (u\<lparr>profile := GetAssumedProfileName (awsService u) (selectedRole u)\<rparr>) w2)
          else attemptECR c u w1)"

fun stepData :: "FlowStep \<Rightarrow> UIManager \<Rightarrow> step_data" where
  \<comment> \<open>the field that the closure of a step-complete message reads\<close>
  "stepData StepProfileSelection u = StringData (profile u)"
| "stepData StepDriverSelection u = DriverData (authDriverName u)"
| "stepData StepRoleSelection u = StringData (selectedRole u)"
| "stepData st u = StringData (mfaCode u)"

fun perform :: "collab \<Rightarrow> cmd \<Rightarrow> UIManager \<Rightarrow> world \<Rightarrow> msg outcome \<times> UIManager \<times> world" where
  "perform c EmitQuit u w = (Returned QuitMsg, u, w)"
| "perform c (EmitStepComplete st) u w = (Returned (StepCompleteMsg st (stepData st u)), u, w)"
| "perform c TryAutoMFA u w =
     (case tryAutoMFA c u w of (m, u', w') \<Rightarrow> (Returned m, u', w'))"
| "perform c ProcessAuthentication u w = processAuthentication c u w"
| "perform c TeaQuit u w = (Returned TeaQuitMsg, u, w)"
| "perform c ClearStepTick u w = (Returned OtherMsg, u\<lparr>step := []\<rparr>, w)"
| "perform c ProcessingTick u w = (Returned ProcessingTickMsg, u, w)"
| "perform c SpinnerTick u w = (Returned SpinnerTickMsg, u, w)"
| "perform c other u w = (Returned OtherMsg, u, w)"

subsection \<open>The runtime\<close>

text \<open>
  The program is driven by events: a key press, a resize of the terminal, or the
  delivery of the message of the oldest command that is still pending. A schedule is a
  list of events; the commands that \<^verbatim>\<open>Update\<close> returns wait in \<open>pending\<close> until the
  schedule delivers them, so every interleaving of key presses and background results
  is some schedule. A panic in a command ends the run.
\<close>

record config =
  ui :: UIManager
  wld :: world
  pending :: "cmd list"

datatype event = Press string | Resize int int | Deliver

fun enqueue :: "cmd \<Rightarrow> cmd list" where
  "enqueue NoCmd = []"
| "enqueue (Batch cs) = concat (map enqueue cs)"
| "enqueue cm = [cm]"

definition boot :: "revision \<Rightarrow> collab \<Rightarrow> AWSService \<Rightarrow> AuthDriverName \<Rightarrow> world \<Rightarrow> config" where
  \<comment> \<open>\<^verbatim>\<open>ui.Start\<close>, then \<^verbatim>\<open>Init\<close>\<close>
  "boot rv c s d w =
     (case initCurrentStep rv c (Start s d) w of
        (u, cm, w') \<Rightarrow> \<lparr>ui = u, wld = w', pending = enqueue cm\<rparr>)"

definition feed :: "revision \<Rightarrow> widgets \<Rightarrow> collab \<Rightarrow> msg \<Rightarrow> UIManager \<Rightarrow> world \<Rightarrow> cmd list \<Rightarrow> config" where
  "feed rv wd c m u w rest =
     (case Update rv wd c m u w of
        (u', cm, w') \<Rightarrow> \<lparr>ui = u', wld = w', pending = rest @ enqueue cm\<rparr>)"

fun react :: "revision \<Rightarrow> widgets \<Rightarrow> collab \<Rightarrow> event \<Rightarrow> config \<Rightarrow> config outcome" where
  "react rv wd c (Press k) cfg =
     Returned (feed rv wd c (KeyMsg k) (ui cfg) (wld cfg) (pending cfg))"
| "react rv wd c (Resize x y) cfg =
     Returned (feed rv wd c (WindowSizeMsg x y) (ui cfg) (wld cfg) (pending cfg))"
| "react rv wd c Deliver cfg =
     (case pending cfg of
        [] \<Rightarrow> Returned cfg
      | cm # rest \<Rightarrow>
          (case perform c cm (ui cfg) (wld cfg) of
             (Panicked i n, u', w') \<Rightarrow> Panicked i n
           | (Returned m, u', w') \<Rightarrow> Returned (feed rv wd c m u' w' rest)))"

fun run :: "revision \<Rightarrow> widgets \<Rightarrow> collab \<Rightarrow> event list \<Rightarrow> config \<Rightarrow> config outcome" where
  "run rv wd c [] cfg = Returned cfg"
| "run rv wd c (e # es) cfg =
     (case react rv wd c e cfg of
        Panicked i n \<Rightarrow> Panicked i n
      | Returned cfg' \<Rightarrow> run rv wd c es cfg')"

section \<open>Example surroundings\<close>


definition emptyWorld :: world where
  "emptyWorld = \<lparr>env = Map.empty, files = Map.empty, calls = []\<rparr>"

definition exampleCreds :: Credentials where
  "exampleCreds =
     \<lparr>AccessKeyId = ''ASIA1'', SecretAccessKey = ''sk1'', SessionToken = ''tok1'',
      Expiration = ''2030-01-01'', Profile = []\<rparr>"

definition okCollab :: collab where
  \<comment> \<open>every command succeeds, every response decodes, the file is written\<close>
  "okCollab =
     \<lparr>runCmd = (\<lambda>argv stdin w. Inr ''out''),
      unmarshalSTS = (\<lambda>out. Inr exampleCreds),
      unmarshalAssumeRole = (\<lambda>out. Inr exampleCreds),
      marshalIndent = (\<lambda>j. Inr ''{}''),
      writeFile = (\<lambda>path content w. None)\<rparr>"

definition diskFullCollab :: collab where
  \<comment> \<open>as before, but the file cannot be written\<close>
  "diskFullCollab = okCollab\<lparr>writeFile := (\<lambda>path content w. Some (''disk full'', files w))\<rparr>"

definition offlineCollab :: collab where
  \<comment> \<open>every command fails\<close>
  "offlineCollab = okCollab\<lparr>runCmd := (\<lambda>argv stdin w. Inl ''exit status 1'')\<rparr>"

definition deniedCollab :: collab where
  \<comment> \<open>the assume-role command fails, every other command succeeds\<close>
  "deniedCollab =
     okCollab\<lparr>runCmd := (\<lambda>argv stdin w.
        if take 3 argv = [''aws'', ''sts'', ''assume-role''] then Inl ''exit status 254''
        else Inr ''out'')\<rparr>"

definition mfaService :: AWSService where
  "mfaService = \<lparr>credentialReader = Some (loaded mfaSource), attemptECRLogin = True\<rparr>"

definition chainService :: AWSService where
  \<comment> \<open>the registry login is not asked for\<close>
  "chainService = \<lparr>credentialReader = Some (loaded chainSource), attemptECRLogin = False\<rparr>"

definition chainManager :: "string \<Rightarrow> UIManager" where
  \<comment> \<open>the manager at the processing step, with the given role selected\<close>
  "chainManager r =
     (Start chainService AuthDriverManual)
       \<lparr>currentStep := StepProcessing, profile := ''main'', selectedRole := r,
        mfaCode := ''123456''\<rparr>"

definition soloService :: AWSService where
  "soloService = \<lparr>credentialReader = Some (loaded soloSource), attemptECRLogin = False\<rparr>"

definition plainWidgets :: widgets where
  \<comment> \<open>a list whose cursor stays where it is, and an input of at most six characters
      that appends the key\<close>
  "plainWidgets =
     \<lparr>listKey = (\<lambda>k cur n. cur),
      inputKey = (\<lambda>k v. if length v < 6 then v @ k else v)\<rparr>"

definition typing :: "string list \<Rightarrow> event list" where
  \<comment> \<open>the schedule of typing the keys: each key, then the delivery of what the input
      widget's command produced\<close>
  "typing keys = concat (map (\<lambda>k. [Press k, Deliver]) keys)"

section \<open>Properties of the driver resolution\<close>






section \<open>Properties of the AWS service\<close>

lemma env_writeToJSONFile: "env (snd (writeToJSONFile c t path w)) = env w"
  by (simp add: writeToJSONFile_def split: sum.splits option.splits prod.splits)

lemma calls_writeToJSONFile: "calls (snd (writeToJSONFile c t path w)) = calls w"
  by (simp add: writeToJSONFile_def split: sum.splits option.splits prod.splits)

lemma env_publishEnv:
  "env (publishEnv cs p w) =
     (env w)(''AWS_ACCESS_KEY_ID'' \<mapsto> AccessKeyId cs,
             ''AWS_SECRET_ACCESS_KEY'' \<mapsto> SecretAccessKey cs,
             ''AWS_SESSION_TOKEN'' \<mapsto> SessionToken cs,
             ''AWS_PROFILE'' \<mapsto> p)"
  by (simp add: publishEnv_def Setenv_def)

lemma calls_publishEnv: "calls (publishEnv cs p w) = calls w"
  by (simp add: publishEnv_def Setenv_def)

lemma persistCredentials_snd:
  "snd (persistCredentials c cs p w) =
     snd (writeToJSONFile c (sessionToken cs p) ''/tmp/aws-session.json'' (publishEnv cs p w))"
  by (simp add: persistCredentials_def split: prod.splits sum.splits)

lemma env_persistCredentials:
  "env (snd (persistCredentials c cs p w)) =
     (env w)(''AWS_ACCESS_KEY_ID'' \<mapsto> AccessKeyId cs,
             ''AWS_SECRET_ACCESS_KEY'' \<mapsto> SecretAccessKey cs,
             ''AWS_SESSION_TOKEN'' \<mapsto> SessionToken cs,
             ''AWS_PROFILE'' \<mapsto> p)"
  by (simp only: persistCredentials_snd env_writeToJSONFile env_publishEnv)

lemma calls_persistCredentials: "calls (snd (persistCredentials c cs p w)) = calls w"
  by (simp only: persistCredentials_snd calls_writeToJSONFile calls_publishEnv)

text \<open>
  C10. \<^verbatim>\<open>persistCredentials\<close> sets the four environment variables before it writes
  the session file. Whenever the write of the file fails (the encoding or
  \<^verbatim>\<open>os.WriteFile\<close> returns an error), the function returns an error, and the
  environment it leaves behind holds the new access key ID, secret key, session token
  and profile.
\<close>

theorem persistCredentials_not_atomic:
  assumes "fst (writeToJSONFile c (sessionToken cs p) ''/tmp/aws-session.json''
                  (publishEnv cs p w)) = Inl e"
  shows "fst (persistCredentials c cs p w)
           = Inl (''failed to write credentials to JSON file: '' @ e) \<and>
         env (snd (persistCredentials c cs p w)) =
           (env w)(''AWS_ACCESS_KEY_ID'' \<mapsto> AccessKeyId cs,
                   ''AWS_SECRET_ACCESS_KEY'' \<mapsto> SecretAccessKey cs,
                   ''AWS_SESSION_TOKEN'' \<mapsto> SessionToken cs,
                   ''AWS_PROFILE'' \<mapsto> p)"
proof
  from assms obtain w' where
    "writeToJSONFile c (sessionToken cs p) ''/tmp/aws-session.json'' (publishEnv cs p w)
       = (Inl e, w')"
    by (cases "writeToJSONFile c (sessionToken cs p) ''/tmp/aws-session.json''
                 (publishEnv cs p w)") simp
  then show "fst (persistCredentials c cs p w)
      = Inl (''failed to write credentials to JSON file: '' @ e)"
    by (simp add: persistCredentials_def)
  show "env (snd (persistCredentials c cs p w)) =
           (env w)(''AWS_ACCESS_KEY_ID'' \<mapsto> AccessKeyId cs,
                   ''AWS_SECRET_ACCESS_KEY'' \<mapsto> SecretAccessKey cs,
                   ''AWS_SESSION_TOKEN'' \<mapsto> SessionToken cs,
                   ''AWS_PROFILE'' \<mapsto> p)"
    by (rule env_persistCredentials)
qed

theorem persistCredentials_not_atomic_witness:
  "fst (persistCredentials diskFullCollab exampleCreds ''int'' emptyWorld)
     = Inl (''failed to write credentials to JSON file: failed to write JSON file: disk full'') \<and>
   Getenv (snd (persistCredentials diskFullCollab exampleCreds ''int'' emptyWorld))
     ''AWS_ACCESS_KEY_ID'' = ''ASIA1'' \<and>
   Getenv (snd (persistCredentials diskFullCollab exampleCreds ''int'' emptyWorld))
     ''AWS_SECRET_ACCESS_KEY'' = ''sk1'' \<and>
   Getenv (snd (persistCredentials diskFullCollab exampleCreds ''int'' emptyWorld))
     ''AWS_SESSION_TOKEN'' = ''tok1'' \<and>
   Getenv (snd (persistCredentials diskFullCollab exampleCreds ''int'' emptyWorld))
     ''AWS_PROFILE'' = ''int'' \<and>
   files (snd (persistCredentials diskFullCollab exampleCreds ''int'' emptyWorld))
     ''/tmp/aws-session.json'' = None"
proof -
  have fails: "fst (writeToJSONFile diskFullCollab (sessionToken exampleCreds ''int'')
      ''/tmp/aws-session.json'' (publishEnv exampleCreds ''int'' emptyWorld))
      = Inl ''failed to write JSON file: disk full''"
    by (simp add: writeToJSONFile_def diskFullCollab_def okCollab_def)
  have nofile: "files (snd (persistCredentials diskFullCollab exampleCreds ''int'' emptyWorld))
     ''/tmp/aws-session.json'' = None"
    by (simp add: persistCredentials_snd writeToJSONFile_def diskFullCollab_def okCollab_def
        publishEnv_def Setenv_def emptyWorld_def)
  from persistCredentials_not_atomic [OF fails] nofile show ?thesis
    by (simp add: Getenv_def exampleCreds_def)
qed

text \<open>
  C9. When the credential of the active profile (the one named by \<^verbatim>\<open>AWS_PROFILE\<close>)
  has no account ID and its role ID has fewer than five colon-separated fields, as the
  empty role ID has, the account ID cannot be read: the index 4 is out of range.
  \<^verbatim>\<open>LoginToECR\<close> reaches that read once the login is enabled, the credential is found
  and the password command has succeeded, and there it panics instead of returning an
  error.
\<close>

theorem LoginToECR_panics:
  assumes "AccountID cred = []"
    and "length (Split (AssumableRoleID cred) (CHR '':'')) < 5"
    and "attemptECRLogin s"
    and "GetCredentials s (Getenv w ''AWS_PROFILE'') = Inr cred"
    and "runCmd c ecrPasswordArgv [] w = Inr password"
  shows "ecrAccountID cred = None \<and>
         length (Split [] (CHR '':'')) < 5 \<and>
         LoginToECR c s w =
           (Panicked 4 (length (Split (AssumableRoleID cred) (CHR '':''))),
            ran ecrPasswordArgv w)"
  using assms by (simp add: ecrAccountID_def index_def LoginToECR_def)

lemma GetCredentials_mfaService_default:
  "GetCredentials mfaService ''default'' =
     Inr (zeroCredential\<lparr>ProfileName := ''default'', AccessKey := ''AK1'',
            AccessSecret := ''s1'', MfaSerial := ''arn:mfa/user''\<rparr>)"
  by (simp add: GetCredentials_def mfaService_def loaded_mfaSource GetCredential_def)

theorem LoginToECR_panics_witness:
  "LoginToECR okCollab mfaService (Setenv ''AWS_PROFILE'' ''default'' emptyWorld) =
     (Panicked 4 1, ran ecrPasswordArgv (Setenv ''AWS_PROFILE'' ''default'' emptyWorld))"
proof -
  let ?w = "Setenv ''AWS_PROFILE'' ''default'' emptyWorld"
  let ?cred = "zeroCredential\<lparr>ProfileName := ''default'', AccessKey := ''AK1'',
            AccessSecret := ''s1'', MfaSerial := ''arn:mfa/user''\<rparr>"
  have 1: "AccountID ?cred = []" by (simp add: zeroCredential_def)
  have 2: "length (Split (AssumableRoleID ?cred) (CHR '':'')) < 5"
    by (simp add: zeroCredential_def)
  have 3: "attemptECRLogin mfaService" by (simp add: mfaService_def)
  have 4: "GetCredentials mfaService (Getenv ?w ''AWS_PROFILE'') = Inr ?cred"
    by (simp add: Getenv_def Setenv_def GetCredentials_mfaService_default)
  have 5: "runCmd okCollab ecrPasswordArgv [] ?w = Inr ''out''"
    by (simp add: okCollab_def)
  from LoginToECR_panics [OF 1 2 3 4 5] show ?thesis
    by (simp add: zeroCredential_def)
qed


section \<open>Properties of the processing step\<close>




lemma GetSessionToken_calls:
  "calls (snd (GetSessionToken c s p code w)) = calls w \<or>
   (\<exists>serial. calls (snd (GetSessionToken c s p code w))
               = calls w @ [sessionTokenArgv p serial code])"
  by (auto simp: GetSessionToken_def calls_persistCredentials ran_def
      split: sum.splits)

lemma AssumeRole_calls:
  "calls (snd (AssumeRole c p r w)) = calls w @ [assumeRoleArgv r]"
  by (auto simp: AssumeRole_def calls_persistCredentials ran_def split: sum.splits)

text \<open>
  In the processing step the exchanges run in order and the first failure ends the
  step. If the session-token exchange fails, the step's message is that error: no
  command was run after the session-token command (if that one was run at all), hence
  no assume-role and no registry login. If a role is selected and the assume-role
  exchange fails, the message is that error and the assume-role command is the last
  command run, hence no registry login. In both cases \<^verbatim>\<open>Update\<close> stores the error
  and moves to the final step. If the registry login \<^emph>\<open>returns\<close> an error, the step's
  message is still "done" with success: only the registry flag of the result is false,
  and \<^verbatim>\<open>Update\<close> sets the success flag and moves to the final step. What happens when
  the registry login does not return is the subject of the last section.
\<close>

lemma processAuthentication_failures:
  "(GetSessionToken c (awsService u) (profile u) (mfaCode u) w = (Inl e, w1) \<longrightarrow>
      processAuthentication c u w = (Returned (ErrorMsg e), u, w1) \<and>
      (calls w1 = calls w \<or>
       (\<exists>serial. calls w1 = calls w @ [sessionTokenArgv (profile u) serial (mfaCode u)])) \<and>
      Update rv wd c (ErrorMsg e) u w1 =
        (u\<lparr>err := Some e, currentStep := StepDone\<rparr>, EmitQuit, w1)) \<and>
   (GetSessionToken c (awsService u) (profile u) (mfaCode u) w = (Inr ok, w1) \<and>
    selectedRole u \<noteq> [] \<and>
    AssumeRole c (GetAssumedProfileName (awsService u) (selectedRole u)) (selectedRole u) w1
      = (Inl e, w2) \<longrightarrow>
      processAuthentication c u w = (Returned (ErrorMsg e), u, w2) \<and>
      calls w2 = calls w1 @ [assumeRoleArgv (selectedRole u)] \<and>
      Update rv wd c (ErrorMsg e) u w2 =
        (u\<lparr>err := Some e, currentStep := StepDone\<rparr>, EmitQuit, w2)) \<and>
   (GetSessionToken c (awsService u) (profile u) (mfaCode u) w = (Inr ok, w1) \<and>
    selectedRole u = [] \<and>
    LoginToECR c (awsService u) w1 = (Returned (Some e), w2) \<longrightarrow>
      processAuthentication c u w =
        (Returned (DoneMsg True),
         u\<lparr>sessionResult := \<lparr>User = profile u, ECRAuth = False\<rparr>\<rparr>, w2) \<and>
      Update rv wd c (DoneMsg True)
          (u\<lparr>sessionResult := \<lparr>User = profile u, ECRAuth = False\<rparr>\<rparr>) w2 =
        (u\<lparr>sessionResult := \<lparr>User = profile u, ECRAuth = False\<rparr>,
           success := True, currentStep := StepDone\<rparr>, EmitQuit, w2)) \<and>
   (GetSessionToken c (awsService u) (profile u) (mfaCode u) w = (Inr ok, w1) \<and>
    selectedRole u \<noteq> [] \<and>
    AssumeRole c (GetAssumedProfileName (awsService u) (selectedRole u)) (selectedRole u) w1
      = (Inr ok', w2) \<and>
    LoginToECR c (awsService u) w2 = (Returned (Some e), w3) \<longrightarrow>
      processAuthentication c u w =
        (Returned (DoneMsg True),
         u\<lparr>profile := GetAssumedProfileName (awsService u) (selectedRole u),
           sessionResult :=
             \<lparr>User = GetAssumedProfileName (awsService u) (selectedRole u),
              ECRAuth = False\<rparr>\<rparr>, w3) \<and>
      Update rv wd c (DoneMsg True)
          (u\<lparr>profile := GetAssumedProfileName (awsService u) (selectedRole u),
             sessionResult :=
               \<lparr>User = GetAssumedProfileName (awsService u) (selectedRole u),
                ECRAuth = False\<rparr>\<rparr>) w3 =
        (u\<lparr>profile := GetAssumedProfileName (awsService u) (selectedRole u),
           sessionResult :=
             \<lparr>User = GetAssumedProfileName (awsService u) (selectedRole u),
              ECRAuth = False\<rparr>,
           success := True, currentStep := StepDone\<rparr>, EmitQuit, w3))"
proof (intro conjI impI)
  assume a: "GetSessionToken c (awsService u) (profile u) (mfaCode u) w = (Inl e, w1)"
  then show "processAuthentication c u w = (Returned (ErrorMsg e), u, w1)"
    by (simp add: processAuthentication_def)
  from GetSessionToken_calls [of c "awsService u" "profile u" "mfaCode u" w] a
  show "calls w1 = calls w \<or>
       (\<exists>serial. calls w1 = calls w @ [sessionTokenArgv (profile u) serial (mfaCode u)])"
    by simp
  show "Update rv wd c (ErrorMsg e) u w1 =
        (u\<lparr>err := Some e, currentStep := StepDone\<rparr>, EmitQuit, w1)"
    by simp
next
  assume a: "GetSessionToken c (awsService u) (profile u) (mfaCode u) w = (Inr ok, w1) \<and>
    selectedRole u \<noteq> [] \<and>
    AssumeRole c (GetAssumedProfileName (awsService u) (selectedRole u)) (selectedRole u) w1
      = (Inl e, w2)"
  then show "processAuthentication c u w = (Returned (ErrorMsg e), u, w2)"
    by (simp add: processAuthentication_def)
  from AssumeRole_calls [of c "GetAssumedProfileName (awsService u) (selectedRole u)"
      "selectedRole u" w1] a
  show "calls w2 = calls w1 @ [assumeRoleArgv (selectedRole u)]"
    by simp
  show "Update rv wd c (ErrorMsg e) u w2 =
        (u\<lparr>err := Some e, currentStep := StepDone\<rparr>, EmitQuit, w2)"
    by simp
next
  assume a: "GetSessionToken c (awsService u) (profile u) (mfaCode u) w = (Inr ok, w1) \<and>
    selectedRole u = [] \<and>
    LoginToECR c (awsService u) w1 = (Returned (Some e), w2)"
  then show "processAuthentication c u w =
        (Returned (DoneMsg True),
         u\<lparr>sessionResult := \<lparr>User = profile u, ECRAuth = False\<rparr>\<rparr>, w2)"
    by (simp add: processAuthentication_def attemptECR_def)
  show "Update rv wd c (DoneMsg True)
          (u\<lparr>sessionResult := \<lparr>User = profile u, ECRAuth = False\<rparr>\<rparr>) w2 =
        (u\<lparr>sessionResult := \<lparr>User = profile u, ECRAuth = False\<rparr>,
           success := True, currentStep := StepDone\<rparr>, EmitQuit, w2)"
    by simp
next
  assume a: "GetSessionToken c (awsService u) (profile u) (mfaCode u) w = (Inr ok, w1) \<and>
    selectedRole u \<noteq> [] \<and>
    AssumeRole c (GetAssumedProfileName (awsService u) (selectedRole u)) (selectedRole u) w1
      = (Inr ok', w2) \<and>
    LoginToECR c (awsService u) w2 = (Returned (Some e), w3)"
  then show "processAuthentication c u w =
        (Returned (DoneMsg True),
         u\<lparr>profile := GetAssumedProfileName (awsService u) (selectedRole u),
           sessionResult :=
             \<lparr>User = GetAssumedProfileName (awsService u) (selectedRole u),
              ECRAuth = False\<rparr>\<rparr>, w3)"
    by (simp add: processAuthentication_def attemptECR_def)
  show "Update rv wd c (DoneMsg True)
          (u\<lparr>profile := GetAssumedProfileName (awsService u) (selectedRole u),
             sessionResult :=
               \<lparr>User = GetAssumedProfileName (awsService u) (selectedRole u),
                ECRAuth = False\<rparr>\<rparr>) w3 =
        (u\<lparr>profile := GetAssumedProfileName (awsService u) (selectedRole u),
           sessionResult :=
             \<lparr>User = GetAssumedProfileName (awsService u) (selectedRole u),
              ECRAuth = False\<rparr>,
           success := True, currentStep := StepDone\<rparr>, EmitQuit, w3)"
    by simp
qed


lemma GetMFASerial_chain_main: "GetMFASerial chainService ''main'' = Inr ''arn:mfa/me''"
  by (simp add: GetMFASerial_def GetCredentials_def chainService_def loaded_chainSource
      GetCredential_def zeroCredential_def)

lemma GetAssumedProfileName_chain: "GetAssumedProfileName chainService opsRole = ''ops''"
  by (simp add: GetAssumedProfileName_def chainService_def loaded_chainSource
      GetProfileByRoleArn_def)

lemma LoginToECR_disabled:
  "LoginToECR c chainService w = (Returned (Some ''attempt to login to ECR is disabled''), w)"
  by (simp add: LoginToECR_def chainService_def)

lemma chainManager_fields:
  "awsService (chainManager r) = chainService" "profile (chainManager r) = ''main''"
  "mfaCode (chainManager r) = ''123456''" "selectedRole (chainManager r) = r"
  by (simp_all add: chainManager_def Start_def)

lemma opsRole_nonempty: "opsRole \<noteq> []"
  by (simp add: opsRole_def)

lemma processAuthentication_failures_example:
  "fst (processAuthentication offlineCollab (chainManager []) emptyWorld) =
     Returned (ErrorMsg ''failed to get AWS session token: exit status 1'') \<and>
   fst (processAuthentication deniedCollab (chainManager opsRole) emptyWorld) =
     Returned (ErrorMsg (''failed to assume role '' @ opsRole @ '': exit status 254'')) \<and>
   fst (processAuthentication okCollab (chainManager []) emptyWorld) = Returned (DoneMsg True) \<and>
   sessionResult (fst (snd (processAuthentication okCollab (chainManager []) emptyWorld))) =
     \<lparr>User = ''main'', ECRAuth = False\<rparr> \<and>
   fst (processAuthentication okCollab (chainManager opsRole) emptyWorld) =
     Returned (DoneMsg True) \<and>
   sessionResult (fst (snd (processAuthentication okCollab (chainManager opsRole) emptyWorld))) =
     \<lparr>User = ''ops'', ECRAuth = False\<rparr>"
proof -
  let ?gst = "\<lambda>c r. GetSessionToken c (awsService (chainManager r)) (profile (chainManager r))
      (mfaCode (chainManager r)) emptyWorld"
  let ?ar = "\<lambda>c. AssumeRole c
      (GetAssumedProfileName (awsService (chainManager opsRole))
         (selectedRole (chainManager opsRole)))
      (selectedRole (chainManager opsRole))"
  have s1: "?gst offlineCollab [] =
      (Inl ''failed to get AWS session token: exit status 1'', snd (?gst offlineCollab []))"
    by (simp add: chainManager_fields GetSessionToken_def GetMFASerial_chain_main
        offlineCollab_def okCollab_def)
  have s2: "?gst deniedCollab opsRole = (Inr True, snd (?gst deniedCollab opsRole))"
    by (simp add: chainManager_fields GetSessionToken_def GetMFASerial_chain_main
        deniedCollab_def okCollab_def persistCredentials_def writeToJSONFile_def
        sessionTokenArgv_def)
  have a2: "?ar deniedCollab (snd (?gst deniedCollab opsRole)) =
      (Inl (''failed to assume role '' @ opsRole @ '': exit status 254''),
       snd (?ar deniedCollab (snd (?gst deniedCollab opsRole))))"
    by (simp add: chainManager_fields AssumeRole_def deniedCollab_def okCollab_def
        assumeRoleArgv_def)
  have s3: "?gst okCollab [] = (Inr True, snd (?gst okCollab []))"
    by (simp add: chainManager_fields GetSessionToken_def GetMFASerial_chain_main
        okCollab_def persistCredentials_def writeToJSONFile_def)
  have s4: "?gst okCollab opsRole = (Inr True, snd (?gst okCollab opsRole))"
    by (simp add: chainManager_fields GetSessionToken_def GetMFASerial_chain_main
        okCollab_def persistCredentials_def writeToJSONFile_def)
  have a4: "?ar okCollab (snd (?gst okCollab opsRole)) =
      (Inr True, snd (?ar okCollab (snd (?gst okCollab opsRole))))"
    by (simp add: chainManager_fields AssumeRole_def okCollab_def
        persistCredentials_def writeToJSONFile_def)
  have role: "selectedRole (chainManager opsRole) \<noteq> []" "selectedRole (chainManager []) = []"
    by (simp_all add: chainManager_fields opsRole_nonempty)
  have l3: "LoginToECR okCollab (awsService (chainManager [])) (snd (?gst okCollab [])) =
      (Returned (Some ''attempt to login to ECR is disabled''), snd (?gst okCollab []))"
    by (simp add: chainManager_fields LoginToECR_disabled)
  have l4: "LoginToECR okCollab (awsService (chainManager opsRole))
        (snd (?ar okCollab (snd (?gst okCollab opsRole)))) =
      (Returned (Some ''attempt to login to ECR is disabled''),
       snd (?ar okCollab (snd (?gst okCollab opsRole))))"
    by (simp add: chainManager_fields LoginToECR_disabled)
  from processAuthentication_failures
    [where c = offlineCollab and u = "chainManager []" and w = emptyWorld
      and e = "''failed to get AWS session token: exit status 1''"
      and ?w1.0 = "snd (?gst offlineCollab [])"]
    s1
  have 1: "fst (processAuthentication offlineCollab (chainManager []) emptyWorld) =
     Returned (ErrorMsg ''failed to get AWS session token: exit status 1'')"
    by simp
  from processAuthentication_failures
    [where c = deniedCollab and u = "chainManager opsRole" and w = emptyWorld
      and e = "''failed to assume role '' @ opsRole @ '': exit status 254''"
      and ?w1.0 = "snd (?gst deniedCollab opsRole)" and ok = True
      and ?w2.0 = "snd (?ar deniedCollab (snd (?gst deniedCollab opsRole)))"]
    s2 a2 role
  have 2: "fst (processAuthentication deniedCollab (chainManager opsRole) emptyWorld) =
     Returned (ErrorMsg (''failed to assume role '' @ opsRole @ '': exit status 254''))"
    by simp
  from processAuthentication_failures
    [where c = okCollab and u = "chainManager []" and w = emptyWorld
      and e = "''attempt to login to ECR is disabled''"
      and ?w1.0 = "snd (?gst okCollab [])" and ok = True
      and ?w2.0 = "snd (?gst okCollab [])"]
    s3 l3 role
  have 3: "processAuthentication okCollab (chainManager []) emptyWorld =
        (Returned (DoneMsg True),
         (chainManager [])\<lparr>sessionResult :=
            \<lparr>User = profile (chainManager []), ECRAuth = False\<rparr>\<rparr>,
         snd (?gst okCollab []))"
    by simp
  from processAuthentication_failures
    [where c = okCollab and u = "chainManager opsRole" and w = emptyWorld
      and e = "''attempt to login to ECR is disabled''"
      and ?w1.0 = "snd (?gst okCollab opsRole)" and ok = True
      and ?w2.0 = "snd (?ar okCollab (snd (?gst okCollab opsRole)))" and ok' = True
      and ?w3.0 = "snd (?ar okCollab (snd (?gst okCollab opsRole)))"]
    s4 a4 l4 role
  have 4: "processAuthentication okCollab (chainManager opsRole) emptyWorld =
        (Returned (DoneMsg True),
         (chainManager opsRole)
           \<lparr>profile := GetAssumedProfileName (awsService (chainManager opsRole))
                         (selectedRole (chainManager opsRole)),
            sessionResult :=
              \<lparr>User = GetAssumedProfileName (awsService (chainManager opsRole))
                        (selectedRole (chainManager opsRole)),
               ECRAuth = False\<rparr>\<rparr>,
         snd (?ar okCollab (snd (?gst okCollab opsRole))))"
    by simp
  from 1 2 3 4 show ?thesis
    by (simp add: chainManager_fields GetAssumedProfileName_chain)
qed


definition noDockerCollab :: collab where
  \<comment> \<open>the login to the registry fails, every other command succeeds\<close>
  "noDockerCollab =
     okCollab\<lparr>runCmd := (\<lambda>argv stdin w.
        if take 2 argv = [''docker'', ''login''] then Inl ''exit status 1''
        else Inr ''out'')\<rparr>"

definition intManager :: UIManager where
  \<comment> \<open>the manager at the processing step, with the profile that has an account ID;
      the registry login is asked for\<close>
  "intManager =
     (Start mfaService AuthDriverManual)
       \<lparr>currentStep := StepProcessing, profile := ''int'', mfaCode := ''123456''\<rparr>"

lemma registry_error_example:
  "LoginToECR noDockerCollab mfaService (Setenv ''AWS_PROFILE'' ''int'' emptyWorld) =
     (Returned (Some ''failed to login to ECR: exit status 1''),
      ran (dockerLoginArgv ''1234'')
        (ran ecrPasswordArgv (Setenv ''AWS_PROFILE'' ''int'' emptyWorld)))"
  "fst (processAuthentication noDockerCollab intManager emptyWorld) = Returned (DoneMsg True)"
  "sessionResult (fst (snd (processAuthentication noDockerCollab intManager emptyWorld))) =
     \<lparr>User = ''int'', ECRAuth = False\<rparr>"
  "calls (snd (snd (processAuthentication noDockerCollab intManager emptyWorld))) =
     [sessionTokenArgv ''int'' ''arn:mfa/int'' ''123456'', ecrPasswordArgv,
      dockerLoginArgv ''1234'']"
  by (simp_all add: processAuthentication_def attemptECR_def LoginToECR_def intManager_def
      Start_def mfaService_def loaded_mfaSource GetSessionToken_def GetMFASerial_def
      GetCredentials_def GetCredential_def zeroCredential_def noDockerCollab_def okCollab_def
      persistCredentials_def writeToJSONFile_def publishEnv_def Setenv_def Getenv_def
      ran_def emptyWorld_def ecrAccountID_def sessionTokenArgv_def ecrPasswordArgv_def
      dockerLoginArgv_def)


section \<open>Properties of the flow\<close>

lemma run_append:
  "run rv wd c (es @ fs) cfg =
     (case run rv wd c es cfg of
        Panicked i n \<Rightarrow> Panicked i n
      | Returned cfg' \<Rightarrow> run rv wd c fs cfg')"
  by (induction es arbitrary: cfg) (simp_all split: outcome.splits)

definition atMFAInput :: "AWSService \<Rightarrow> string \<Rightarrow> string \<Rightarrow> config \<Rightarrow> bool" where
  \<comment> \<open>the manager waits for the code of the manual driver; nothing is pending\<close>
  "atMFAInput s p v cfg \<longleftrightarrow>
     currentStep (ui cfg) = StepMFAInput \<and> awsService (ui cfg) = s \<and>
     profile (ui cfg) = p \<and> authDriverName (ui cfg) = AuthDriverManual \<and>
     selectedRole (ui cfg) = [] \<and> roleModel (ui cfg) = None \<and>
     mfaInput (ui cfg) = v \<and> pending cfg = []"

lemma boot_UiGo:
  assumes "svcGetValidProfiles s = [p]"
  shows "boot UiGo c s d w =
     \<lparr>ui = (Start s d)\<lparr>profileModel := Some (NewProfileListModel s), profile := p\<rparr>,
      wld = w, pending = [EmitStepComplete StepProfileSelection]\<rparr>"
  using assms by (simp add: boot_def initCurrentStep_def Start_def)

lemma boot_Part004:
  "boot Part004 c s d w =
     \<lparr>ui = (Start s d)\<lparr>profileModel := Some (NewProfileListModel s)\<rparr>,
      wld = w, pending = []\<rparr>"
  by (simp add: boot_def initCurrentStep_def Start_def)

lemma driver_step_entered:
  "feed rv wd c (StepCompleteMsg StepProfileSelection x) u w [] =
     \<lparr>ui = u\<lparr>currentStep := StepDriverSelection,
              driverModel := Some (fst (NewDriverListModel c w))\<rparr>,
      wld = snd (NewDriverListModel c w), pending = []\<rparr>"
  by (cases "NewDriverListModel c w")
    (simp add: feed_def handleStepComplete_def initCurrentStep_def)

lemma driver_list_manual_first:
  "SelectedItem (driverList (fst (NewDriverListModel c w))) = Some AuthDriverManual"
  by (cases "opInstalled c w")
    (simp add: NewDriverListModel_def SelectedItem_def index_def newList_def)

lemma run_two:
  "run rv wd c (e1 # e2 # es) cfg =
     (case run rv wd c [e1, e2] cfg of
        Panicked i n \<Rightarrow> Panicked i n
      | Returned cfg' \<Rightarrow> run rv wd c es cfg')"
  by (simp split: outcome.splits)

lemma driver_chosen:
  assumes "currentStep u = StepDriverSelection" "driverModel u = Some m"
    and "SelectedItem (driverList m) = Some AuthDriverManual"
    and "svcGetAssumableRoles (awsService u) (profile u) = []"
  shows "run rv wd c [Press ''enter'', Deliver] \<lparr>ui = u, wld = w, pending = []\<rparr> =
     Returned
       \<lparr>ui = u\<lparr>driverModel := Some (m\<lparr>driverChoice := AuthDriverManual,
                                         driverSelected := True\<rparr>),
                authDriverName := AuthDriverManual, currentStep := StepMFAInput\<rparr>,
        wld = w, pending = []\<rparr>"
  using assms
  by (simp add: feed_def handleCurrentStep_def handleStepComplete_def initCurrentStep_def
      initStepMFAInput_def)

lemma typing_keeps_waiting:
  assumes "atMFAInput s p v cfg" "''enter'' \<notin> set keys" "''ctrl+c'' \<notin> set keys"
  shows "\<exists>cfg'. run rv wd c (typing keys) cfg = Returned cfg' \<and>
           atMFAInput s p (foldl (\<lambda>v k. inputKey wd k v) v keys) cfg'"
  using assms
proof (induction keys arbitrary: v cfg)
  case Nil
  then show ?case by (simp add: typing_def)
next
  case (Cons k keys)
  from Cons.prems have k: "k \<noteq> ''enter''" "k \<noteq> ''ctrl+c''" by auto
  let ?cfg1 = "cfg\<lparr>ui := (ui cfg)\<lparr>mfaInput := inputKey wd k v\<rparr>\<rparr>"
  from Cons.prems(1) k have one: "run rv wd c [Press k, Deliver] cfg = Returned ?cfg1"
    by (simp add: atMFAInput_def feed_def handleCurrentStep_def)
  from Cons.prems(1) have at1: "atMFAInput s p (inputKey wd k v) ?cfg1"
    by (simp add: atMFAInput_def)
  from Cons.prems have "''enter'' \<notin> set keys" "''ctrl+c'' \<notin> set keys" by simp_all
  from Cons.IH [OF at1 this] obtain cfg' where
    "run rv wd c (typing keys) ?cfg1 = Returned cfg'"
    "atMFAInput s p (foldl (\<lambda>v k. inputKey wd k v) (inputKey wd k v) keys) cfg'"
    by blast
  moreover have "typing (k # keys) = Press k # Deliver # typing keys"
    by (simp add: typing_def)
  moreover have "run rv wd c (Press k # Deliver # typing keys) cfg =
      run rv wd c (typing keys) ?cfg1"
    by (subst run_two) (simp only: one outcome.case)
  ultimately show ?case
    by (simp del: run.simps)
qed

lemma code_submitted:
  assumes "atMFAInput s p code cfg" "ValidateMFACode code"
  shows "\<exists>cfg'. run rv wd c [Press ''enter'', Deliver] cfg = Returned cfg' \<and>
           currentStep (ui cfg') = StepProcessing \<and> awsService (ui cfg') = s \<and>
           profile (ui cfg') = p \<and>
           authDriverName (ui cfg') = AuthDriverManual \<and> selectedRole (ui cfg') = [] \<and>
           roleModel (ui cfg') = None \<and> mfaCode (ui cfg') = code \<and>
           pending cfg' =
             (if rv = UiGo then [SpinnerTick, ProcessAuthentication, ProcessingTick]
              else [ProcessAuthentication])"
  using assms
  by (simp add: atMFAInput_def feed_def handleCurrentStep_def handleStepComplete_def
      initCurrentStep_def)

lemma first_delivery_UiGo:
  assumes "svcGetValidProfiles s = [p]"
  shows "run UiGo wd c [Deliver] (boot UiGo c s d w) =
     Returned
       \<lparr>ui = (Start s d)\<lparr>profileModel := Some (NewProfileListModel s), profile := p,
                           currentStep := StepDriverSelection,
                           driverModel := Some (fst (NewDriverListModel c w))\<rparr>,
        wld = snd (NewDriverListModel c w), pending = []\<rparr>"
  by (simp add: boot_UiGo [OF assms] driver_step_entered)

lemma first_key_Part004:
  assumes "svcGetValidProfiles s = [p]"
  shows "\<exists>m. run Part004 wd c [Press ''enter'', Deliver] (boot Part004 c s d w) =
     Returned
       \<lparr>ui = (Start s d)\<lparr>profileModel := Some m, profile := p,
                           currentStep := StepDriverSelection,
                           driverModel := Some (fst (NewDriverListModel c w))\<rparr>,
        wld = snd (NewDriverListModel c w), pending = []\<rparr>"
proof -
  let ?m = "(NewProfileListModel s)\<lparr>profileChoice := p, profileSelected := True,
      profileList := listUpdate wd (KeyMsg ''enter'')
        (profileList (NewProfileListModel s))\<rparr>"
  have key: "feed Part004 wd c (KeyMsg ''enter'')
      ((Start s d)\<lparr>profileModel := Some (NewProfileListModel s)\<rparr>) w [] =
      \<lparr>ui = (Start s d)\<lparr>profileModel := Some ?m, profile := p\<rparr>, wld = w,
       pending = [EmitStepComplete StepProfileSelection]\<rparr>"
    using assms
    by (simp add: feed_def handleCurrentStep_def Start_def NewProfileListModel_def
        SelectedItem_def index_def newList_def)
  have "run Part004 wd c [Press ''enter'', Deliver] (boot Part004 c s d w) =
     Returned
       \<lparr>ui = (Start s d)\<lparr>profileModel := Some ?m, profile := p,
                           currentStep := StepDriverSelection,
                           driverModel := Some (fst (NewDriverListModel c w))\<rparr>,
        wld = snd (NewDriverListModel c w), pending = []\<rparr>"
    by (simp add: boot_Part004 key driver_step_entered)
  then show ?thesis by blast
qed

lemma manual_chosen:
  assumes "svcGetAssumableRoles s p = []"
    and "awsService u = s" "profile u = p" "currentStep u = StepDriverSelection"
    and "driverModel u = Some (fst (NewDriverListModel c w))"
    and "selectedRole u = []" "roleModel u = None" "mfaInput u = []"
  shows "\<exists>cfg. run rv wd c [Press ''enter'', Deliver] \<lparr>ui = u, wld = w', pending = []\<rparr>
           = Returned cfg \<and> atMFAInput s p [] cfg"
proof -
  from assms have roles: "svcGetAssumableRoles (awsService u) (profile u) = []"
    by simp
  from driver_chosen [OF assms(4) assms(5) driver_list_manual_first roles, of rv wd c w']
    assms
  show ?thesis
    by (simp add: atMFAInput_def del: run.simps)
qed

lemma Start_fields:
  "awsService (Start s d) = s" "selectedRole (Start s d) = []" "roleModel (Start s d) = None"
  "mfaInput (Start s d) = []"
  by (simp_all add: Start_def)

definition atProcessing :: "revision \<Rightarrow> AWSService \<Rightarrow> string \<Rightarrow> string \<Rightarrow> config \<Rightarrow> bool" where
  \<comment> \<open>the manager has entered the processing step with the profile and the code, the
      manual driver and no role, no role list was ever created, and the commands of
      the step are pending\<close>
  "atProcessing rv s p code cfg \<longleftrightarrow>
     currentStep (ui cfg) = StepProcessing \<and> awsService (ui cfg) = s \<and>
     profile (ui cfg) = p \<and> authDriverName (ui cfg) = AuthDriverManual \<and>
     selectedRole (ui cfg) = [] \<and> roleModel (ui cfg) = None \<and> mfaCode (ui cfg) = code \<and>
     pending cfg =
       (if rv = UiGo then [SpinnerTick, ProcessAuthentication, ProcessingTick]
        else [ProcessAuthentication])"

lemma driver_step_to_processing:
  assumes "svcGetAssumableRoles s p = []"
    and "ValidateMFACode code"
    and "foldl (\<lambda>v k. inputKey wd k v) [] keys = code"
    and "''enter'' \<notin> set keys" and "''ctrl+c'' \<notin> set keys"
    and "awsService u = s" "profile u = p" "currentStep u = StepDriverSelection"
    and "driverModel u = Some (fst (NewDriverListModel c w))"
    and "selectedRole u = []" "roleModel u = None" "mfaInput u = []"
  shows "\<exists>cfg. run rv wd c
             ([Press ''enter'', Deliver] @ typing keys @ [Press ''enter'', Deliver])
             \<lparr>ui = u, wld = w', pending = []\<rparr> = Returned cfg \<and>
           atProcessing rv s p code cfg"
proof -
  from manual_chosen [OF assms(1) assms(6-12), of rv wd w'] obtain cfg2 where
    r2: "run rv wd c [Press ''enter'', Deliver] \<lparr>ui = u, wld = w', pending = []\<rparr>
           = Returned cfg2"
    and a2: "atMFAInput s p [] cfg2"
    by blast
  from typing_keeps_waiting [OF a2 assms(4) assms(5), of rv wd c] assms(3) obtain cfg3
    where r3: "run rv wd c (typing keys) cfg2 = Returned cfg3"
      and a3: "atMFAInput s p code cfg3"
    by auto
  from code_submitted [OF a3 assms(2), of rv wd c] obtain cfg4 where
    r4: "run rv wd c [Press ''enter'', Deliver] cfg3 = Returned cfg4"
    and f4: "atProcessing rv s p code cfg4"
    unfolding atProcessing_def by blast
  have "run rv wd c
      ([Press ''enter'', Deliver] @ typing keys @ [Press ''enter'', Deliver])
      \<lparr>ui = u, wld = w', pending = []\<rparr> = Returned cfg4"
    by (simp only: run_append r2 r3 r4 outcome.case)
  with f4 show ?thesis by blast
qed

lemma flow_UiGo:
  assumes "svcGetValidProfiles s = [p]"
    and "svcGetAssumableRoles s p = []"
    and "ValidateMFACode code"
    and "foldl (\<lambda>v k. inputKey wd k v) [] keys = code"
    and "''enter'' \<notin> set keys" and "''ctrl+c'' \<notin> set keys"
  shows "\<exists>cfg. run UiGo wd c
             ([Deliver] @ [Press ''enter'', Deliver] @ typing keys
                @ [Press ''enter'', Deliver])
             (boot UiGo c s d w) = Returned cfg \<and>
           atProcessing UiGo s p code cfg"
proof -
  let ?u1 = "(Start s d)\<lparr>profileModel := Some (NewProfileListModel s), profile := p,
      currentStep := StepDriverSelection,
      driverModel := Some (fst (NewDriverListModel c w))\<rparr>"
  let ?cfg1 = "\<lparr>ui = ?u1, wld = snd (NewDriverListModel c w), pending = []\<rparr>"
  have first: "run UiGo wd c [Deliver] (boot UiGo c s d w) = Returned ?cfg1"
    by (rule first_delivery_UiGo [OF assms(1)])
  have "\<exists>cfg. run UiGo wd c
      ([Press ''enter'', Deliver] @ typing keys @ [Press ''enter'', Deliver]) ?cfg1
        = Returned cfg \<and> atProcessing UiGo s p code cfg"
    by (rule driver_step_to_processing [OF assms(2-6)]) (simp_all add: Start_fields)
  then obtain cfg where
    "run UiGo wd c ([Press ''enter'', Deliver] @ typing keys @ [Press ''enter'', Deliver])
       ?cfg1 = Returned cfg"
    and at: "atProcessing UiGo s p code cfg"
    by blast
  moreover have "run UiGo wd c
      ([Deliver] @ [Press ''enter'', Deliver] @ typing keys @ [Press ''enter'', Deliver])
      (boot UiGo c s d w) =
    run UiGo wd c ([Press ''enter'', Deliver] @ typing keys @ [Press ''enter'', Deliver])
      ?cfg1"
    by (subst run_append) (simp only: first outcome.case)
  ultimately have "run UiGo wd c
      ([Deliver] @ [Press ''enter'', Deliver] @ typing keys @ [Press ''enter'', Deliver])
      (boot UiGo c s d w) = Returned cfg"
    by (simp only:)
  with at show ?thesis by blast
qed

lemma flow_Part004:
  assumes "svcGetValidProfiles s = [p]"
    and "svcGetAssumableRoles s p = []"
    and "ValidateMFACode code"
    and "foldl (\<lambda>v k. inputKey wd k v) [] keys = code"
    and "''enter'' \<notin> set keys" and "''ctrl+c'' \<notin> set keys"
  shows "\<exists>cfg. run Part004 wd c
             ([Press ''enter'', Deliver] @ [Press ''enter'', Deliver] @ typing keys
                @ [Press ''enter'', Deliver])
             (boot Part004 c s d w) = Returned cfg \<and>
           atProcessing Part004 s p code cfg"
proof -
  from first_key_Part004 [OF assms(1), of wd c d w] obtain m where
    first: "run Part004 wd c [Press ''enter'', Deliver] (boot Part004 c s d w) =
      Returned \<lparr>ui = (Start s d)\<lparr>profileModel := Some m, profile := p,
                           currentStep := StepDriverSelection,
                           driverModel := Some (fst (NewDriverListModel c w))\<rparr>,
        wld = snd (NewDriverListModel c w), pending = []\<rparr>"
    by blast
  let ?u1 = "(Start s d)\<lparr>profileModel := Some m, profile := p,
      currentStep := StepDriverSelection,
      driverModel := Some (fst (NewDriverListModel c w))\<rparr>"
  let ?cfg1 = "\<lparr>ui = ?u1, wld = snd (NewDriverListModel c w), pending = []\<rparr>"
  have "\<exists>cfg. run Part004 wd c
      ([Press ''enter'', Deliver] @ typing keys @ [Press ''enter'', Deliver]) ?cfg1
        = Returned cfg \<and> atProcessing Part004 s p code cfg"
    by (rule driver_step_to_processing [OF assms(2-6)]) (simp_all add: Start_fields)
  then obtain cfg where
    "run Part004 wd c
       ([Press ''enter'', Deliver] @ typing keys @ [Press ''enter'', Deliver])
       ?cfg1 = Returned cfg"
    and at: "atProcessing Part004 s p code cfg"
    by blast
  moreover have "run Part004 wd c
      ([Press ''enter'', Deliver] @ [Press ''enter'', Deliver] @ typing keys
         @ [Press ''enter'', Deliver])
      (boot Part004 c s d w) =
    run Part004 wd c
      ([Press ''enter'', Deliver] @ typing keys @ [Press ''enter'', Deliver]) ?cfg1"
    by (subst run_append) (simp only: first outcome.case)
  ultimately have "run Part004 wd c
      ([Press ''enter'', Deliver] @ [Press ''enter'', Deliver] @ typing keys
         @ [Press ''enter'', Deliver])
      (boot Part004 c s d w) = Returned cfg"
    by (simp only:)
  with at show ?thesis by blast
qed

lemma six_digits_typed:
  "foldl (\<lambda>v k. inputKey plainWidgets k v) []
      [''1'', ''2'', ''3'', ''4'', ''5'', ''6''] = ''123456''"
  "''enter'' \<notin> set [''1'', ''2'', ''3'', ''4'', ''5'', ''6'']"
  "''ctrl+c'' \<notin> set [''1'', ''2'', ''3'', ''4'', ''5'', ''6'']"
  by (simp_all add: plainWidgets_def)

subsection \<open>The single profile\<close>

text \<open>
  C5. Let exactly one profile be valid, let it have no assumable roles, and let the
  keys typed into the code field (none of them Enter or Ctrl+C) produce a valid
  six-digit code. In the manager of \<^verbatim>\<open>src/ui/ui.go\<close>, \<^verbatim>\<open>Init\<close> itself, in the profile
  step, selects the one profile and leaves the step's completion pending; the first
  delivery, before any key, enters the driver step with that profile and nothing
  pending. The schedule "delivery; Enter on the driver list (whose cursor is on the
  manual driver); delivery; the typed keys; Enter; delivery" then reaches the
  processing step with that profile, the manual driver, no role and the typed code: no
  key went to the profile list, the role list was never created, and the commands of
  the processing step are pending.
\<close>

theorem single_profile_auto_select:
  assumes "svcGetValidProfiles s = [p]"
    and "svcGetAssumableRoles s p = []"
    and "ValidateMFACode code"
    and "foldl (\<lambda>v k. inputKey wd k v) [] keys = code"
    and "''enter'' \<notin> set keys" and "''ctrl+c'' \<notin> set keys"
  shows "currentStep (ui (boot UiGo c s d w)) = StepProfileSelection \<and>
         profile (ui (boot UiGo c s d w)) = p \<and>
         pending (boot UiGo c s d w) = [EmitStepComplete StepProfileSelection] \<and>
         (\<exists>cfg. run UiGo wd c [Deliver] (boot UiGo c s d w) = Returned cfg \<and>
            currentStep (ui cfg) = StepDriverSelection \<and> profile (ui cfg) = p \<and>
            pending cfg = []) \<and>
         (\<exists>cfg. run UiGo wd c
                  ([Deliver] @ [Press ''enter'', Deliver] @ typing keys
                     @ [Press ''enter'', Deliver])
                  (boot UiGo c s d w) = Returned cfg \<and>
            currentStep (ui cfg) = StepProcessing \<and> profile (ui cfg) = p \<and>
            authDriverName (ui cfg) = AuthDriverManual \<and> selectedRole (ui cfg) = [] \<and>
            roleModel (ui cfg) = None \<and> mfaCode (ui cfg) = code \<and>
            pending cfg = [SpinnerTick, ProcessAuthentication, ProcessingTick])"
proof -
  have init: "currentStep (ui (boot UiGo c s d w)) = StepProfileSelection \<and>
      profile (ui (boot UiGo c s d w)) = p \<and>
      pending (boot UiGo c s d w) = [EmitStepComplete StepProfileSelection]"
    by (simp add: boot_UiGo [OF assms(1)] Start_def)
  have first: "\<exists>cfg. run UiGo wd c [Deliver] (boot UiGo c s d w) = Returned cfg \<and>
      currentStep (ui cfg) = StepDriverSelection \<and> profile (ui cfg) = p \<and>
      pending cfg = []"
    unfolding first_delivery_UiGo [OF assms(1)] by simp
  from flow_UiGo [OF assms, of c d w] obtain cfg where
    r: "run UiGo wd c
         ([Deliver] @ [Press ''enter'', Deliver] @ typing keys @ [Press ''enter'', Deliver])
         (boot UiGo c s d w) = Returned cfg"
    and at: "atProcessing UiGo s p code cfg"
    by blast
  from at have f: "currentStep (ui cfg) = StepProcessing \<and> profile (ui cfg) = p \<and>
      authDriverName (ui cfg) = AuthDriverManual \<and> selectedRole (ui cfg) = [] \<and>
      roleModel (ui cfg) = None \<and> mfaCode (ui cfg) = code \<and>
      pending cfg = [SpinnerTick, ProcessAuthentication, ProcessingTick]"
    by (simp add: atProcessing_def)
  from r f have whole: "\<exists>cfg. run UiGo wd c
      ([Deliver] @ [Press ''enter'', Deliver] @ typing keys @ [Press ''enter'', Deliver])
      (boot UiGo c s d w) = Returned cfg \<and>
      currentStep (ui cfg) = StepProcessing \<and> profile (ui cfg) = p \<and>
      authDriverName (ui cfg) = AuthDriverManual \<and> selectedRole (ui cfg) = [] \<and>
      roleModel (ui cfg) = None \<and> mfaCode (ui cfg) = code \<and>
      pending cfg = [SpinnerTick, ProcessAuthentication, ProcessingTick]"
    by (simp only: exI [of _ cfg] simp_thms)
  from init first whole show ?thesis by blast
qed

lemma soloService_profiles:
  "svcGetValidProfiles soloService = [''solo'']"
  "svcGetAssumableRoles soloService ''solo'' = []"
  by (simp_all add: svcGetValidProfiles_def svcGetAssumableRoles_def soloService_def
      loaded_soloSource GetValidProfiles_def GetAssumableRoles_def zeroCredential_def)

theorem single_profile_auto_select_witness:
  "profile (ui (boot UiGo okCollab soloService AuthDriverUnknown emptyWorld)) = ''solo'' \<and>
   pending (boot UiGo okCollab soloService AuthDriverUnknown emptyWorld)
     = [EmitStepComplete StepProfileSelection] \<and>
   (\<exists>cfg. run UiGo plainWidgets okCollab [Deliver]
             (boot UiGo okCollab soloService AuthDriverUnknown emptyWorld) = Returned cfg \<and>
          currentStep (ui cfg) = StepDriverSelection \<and> profile (ui cfg) = ''solo'' \<and>
          pending cfg = []) \<and>
   (\<exists>cfg. run UiGo plainWidgets okCollab
             ([Deliver] @ [Press ''enter'', Deliver]
                @ typing [''1'', ''2'', ''3'', ''4'', ''5'', ''6'']
                @ [Press ''enter'', Deliver])
             (boot UiGo okCollab soloService AuthDriverUnknown emptyWorld) = Returned cfg \<and>
          currentStep (ui cfg) = StepProcessing \<and> profile (ui cfg) = ''solo'' \<and>
          authDriverName (ui cfg) = AuthDriverManual \<and> selectedRole (ui cfg) = [] \<and>
          roleModel (ui cfg) = None \<and> mfaCode (ui cfg) = ''123456'' \<and>
          pending cfg = [SpinnerTick, ProcessAuthentication, ProcessingTick])"
proof -
  have code: "ValidateMFACode ''123456''"
    by (rule ValidateMFACode_examples)
  from single_profile_auto_select
    [OF soloService_profiles code six_digits_typed, of okCollab AuthDriverUnknown emptyWorld]
  show ?thesis by blast
qed

text \<open>
  The manager of \<^verbatim>\<open>src/unnamed/part_004\<close> has no test for the single profile: there
  \<^verbatim>\<open>Init\<close> leaves nothing pending, and the same schedule with Enter on the profile list
  in front reaches the processing step, again without a role list.
\<close>

lemma single_profile_Part004:
  assumes "svcGetValidProfiles s = [p]"
    and "svcGetAssumableRoles s p = []"
    and "ValidateMFACode code"
    and "foldl (\<lambda>v k. inputKey wd k v) [] keys = code"
    and "''enter'' \<notin> set keys" and "''ctrl+c'' \<notin> set keys"
  shows "pending (boot Part004 c s d w) = [] \<and>
         currentStep (ui (boot Part004 c s d w)) = StepProfileSelection \<and>
         (\<exists>cfg. run Part004 wd c
                  ([Press ''enter'', Deliver] @ [Press ''enter'', Deliver] @ typing keys
                     @ [Press ''enter'', Deliver])
                  (boot Part004 c s d w) = Returned cfg \<and>
            atProcessing Part004 s p code cfg)"
  using flow_Part004 [OF assms, of c d w] by (simp add: boot_Part004 Start_def)

subsection \<open>The registry login within the flow\<close>

definition soloEcrService :: AWSService where
  \<comment> \<open>the single profile again, now with the registry login asked for\<close>
  "soloEcrService = \<lparr>credentialReader = Some (loaded soloSource), attemptECRLogin = True\<rparr>"

definition soloEcrManager :: UIManager where
  \<comment> \<open>the manager at the processing step, with that profile and no role selected\<close>
  "soloEcrManager =
     (Start soloEcrService AuthDriverManual)
       \<lparr>currentStep := StepProcessing, profile := ''solo'', mfaCode := ''123456''\<rparr>"

lemma soloEcrService_profiles:
  "svcGetValidProfiles soloEcrService = [''solo'']"
  "svcGetAssumableRoles soloEcrService ''solo'' = []"
  by (simp_all add: svcGetValidProfiles_def svcGetAssumableRoles_def soloEcrService_def
      loaded_soloSource GetValidProfiles_def GetAssumableRoles_def zeroCredential_def)

lemma GetSessionToken_solo:
  "GetSessionToken okCollab soloEcrService ''solo'' code w =
     (Inr True,
      (publishEnv exampleCreds ''solo''
         (ran (sessionTokenArgv ''solo'' ''arn:mfa/solo'' code) w))
        \<lparr>files := (files w)(''/tmp/aws-session.json'' \<mapsto> ''{}'')\<rparr>)"
  by (simp add: GetSessionToken_def GetMFASerial_def GetCredentials_def soloEcrService_def
      loaded_soloSource GetCredential_def zeroCredential_def okCollab_def
      persistCredentials_def writeToJSONFile_def publishEnv_def Setenv_def ran_def)

lemma LoginToECR_solo:
  assumes "Getenv w ''AWS_PROFILE'' = ''solo''"
  shows "fst (LoginToECR okCollab soloEcrService w) = Panicked 4 1"
  using assms
  by (simp add: LoginToECR_def soloEcrService_def GetCredentials_def loaded_soloSource
      GetCredential_def zeroCredential_def okCollab_def ecrAccountID_def index_def)

lemma processAuthentication_solo:
  assumes "awsService u = soloEcrService" "profile u = ''solo''" "selectedRole u = []"
  shows "fst (processAuthentication okCollab u w) = Panicked 4 1"
proof -
  let ?w1 = "(publishEnv exampleCreds ''solo''
      (ran (sessionTokenArgv ''solo'' ''arn:mfa/solo'' (mfaCode u)) w))
        \<lparr>files := (files w)(''/tmp/aws-session.json'' \<mapsto> ''{}'')\<rparr>"
  have token: "GetSessionToken okCollab soloEcrService ''solo'' (mfaCode u) w = (Inr True, ?w1)"
    by (rule GetSessionToken_solo)
  have "Getenv ?w1 ''AWS_PROFILE'' = ''solo''"
    by (simp add: Getenv_def publishEnv_def Setenv_def)
  then have "fst (LoginToECR okCollab soloEcrService ?w1) = Panicked 4 1"
    by (rule LoginToECR_solo)
  then have "fst (attemptECR okCollab u ?w1) = Panicked 4 1"
    using assms(1)
    by (cases "LoginToECR okCollab soloEcrService ?w1") (simp add: attemptECR_def)
  with assms show ?thesis
    by (simp add: processAuthentication_def token)
qed

lemma panic_at_processing:
  assumes "atProcessing rv soloEcrService ''solo'' code cfg"
  shows "run rv wd okCollab (if rv = UiGo then [Deliver, Deliver] else [Deliver]) cfg
           = Panicked 4 1"
proof -
  from assms have f: "awsService (ui cfg) = soloEcrService" "profile (ui cfg) = ''solo''"
    "selectedRole (ui cfg) = []"
    by (simp_all add: atProcessing_def)
  have step: "fst (processAuthentication okCollab (ui cfg) w) = Panicked 4 1" for w
    by (rule processAuthentication_solo [OF f])
  show ?thesis
  proof (cases rv)
    case UiGo
    with assms have p: "pending cfg = [SpinnerTick, ProcessAuthentication, ProcessingTick]"
      by (simp add: atProcessing_def)
    from step [of "wld cfg"] obtain u' w' where
      "processAuthentication okCollab (ui cfg) (wld cfg) = (Panicked 4 1, u', w')"
      by (cases "processAuthentication okCollab (ui cfg) (wld cfg)") auto
    with UiGo p show ?thesis
      by (simp add: feed_def)
  next
    case Part004
    with assms have p: "pending cfg = [ProcessAuthentication]"
      by (simp add: atProcessing_def)
    from step [of "wld cfg"] obtain u' w' where
      "processAuthentication okCollab (ui cfg) (wld cfg) = (Panicked 4 1, u', w')"
      by (cases "processAuthentication okCollab (ui cfg) (wld cfg)") auto
    with Part004 p show ?thesis
      by simp
  qed
qed

text \<open>
  C7. A failure of the registry login is meant not to be fatal: the processing step
  marks the case "not critical, continue with success" and answers "done" whatever
  error \<^verbatim>\<open>LoginToECR\<close> returns. \<^verbatim>\<open>LoginToECR\<close>, however, does not return when it
  cannot read the account ID: it panics, and the panic ends the step without any
  message. With the registry login asked for and the single profile \<open>solo\<close>, which has
  an MFA serial but neither an account ID nor a role, every command succeeding and the
  code \<open>123456\<close>: the session-token exchange succeeds, the processing step started at
  that profile panics with "index out of range [4] with length 1", and so does the
  whole flow from \<^verbatim>\<open>Init\<close>, in the manager of \<^verbatim>\<open>src/ui/ui.go\<close> and in the one of
  \<^verbatim>\<open>src/unnamed/part_004\<close>: the final step is never reached.
\<close>

theorem processAuthentication_registry_panic:
  "fst (GetSessionToken okCollab soloEcrService ''solo'' ''123456'' emptyWorld) = Inr True \<and>
   fst (processAuthentication okCollab soloEcrManager emptyWorld) = Panicked 4 1 \<and>
   run UiGo plainWidgets okCollab
     (([Deliver] @ [Press ''enter'', Deliver]
         @ typing [''1'', ''2'', ''3'', ''4'', ''5'', ''6'']
         @ [Press ''enter'', Deliver]) @ [Deliver, Deliver])
     (boot UiGo okCollab soloEcrService AuthDriverUnknown emptyWorld) = Panicked 4 1 \<and>
   run Part004 plainWidgets okCollab
     (([Press ''enter'', Deliver] @ [Press ''enter'', Deliver]
         @ typing [''1'', ''2'', ''3'', ''4'', ''5'', ''6'']
         @ [Press ''enter'', Deliver]) @ [Deliver])
     (boot Part004 okCollab soloEcrService AuthDriverUnknown emptyWorld) = Panicked 4 1"
proof -
  have code: "ValidateMFACode ''123456''"
    by (rule ValidateMFACode_examples)
  have token: "fst (GetSessionToken okCollab soloEcrService ''solo'' ''123456'' emptyWorld)
      = Inr True"
    by (simp add: GetSessionToken_solo)
  have direct: "fst (processAuthentication okCollab soloEcrManager emptyWorld) = Panicked 4 1"
    by (rule processAuthentication_solo) (simp_all add: soloEcrManager_def Start_def)
  from flow_UiGo [OF soloEcrService_profiles code six_digits_typed,
      of okCollab AuthDriverUnknown emptyWorld]
  obtain cfg where
    r: "run UiGo plainWidgets okCollab
         ([Deliver] @ [Press ''enter'', Deliver]
            @ typing [''1'', ''2'', ''3'', ''4'', ''5'', ''6'']
            @ [Press ''enter'', Deliver])
         (boot UiGo okCollab soloEcrService AuthDriverUnknown emptyWorld) = Returned cfg"
    and at: "atProcessing UiGo soloEcrService ''solo'' ''123456'' cfg"
    by blast
  from panic_at_processing [OF at, of plainWidgets]
  have "run UiGo plainWidgets okCollab [Deliver, Deliver] cfg = Panicked 4 1"
    by (simp del: run.simps)
  with r have new: "run UiGo plainWidgets okCollab
     (([Deliver] @ [Press ''enter'', Deliver]
         @ typing [''1'', ''2'', ''3'', ''4'', ''5'', ''6'']
         @ [Press ''enter'', Deliver]) @ [Deliver, Deliver])
     (boot UiGo okCollab soloEcrService AuthDriverUnknown emptyWorld) = Panicked 4 1"
    by (subst run_append) (simp only: outcome.case)
  from flow_Part004 [OF soloEcrService_profiles code six_digits_typed,
      of okCollab AuthDriverUnknown emptyWorld]
  obtain cfgP where
    rP: "run Part004 plainWidgets okCollab
         ([Press ''enter'', Deliver] @ [Press ''enter'', Deliver]
            @ typing [''1'', ''2'', ''3'', ''4'', ''5'', ''6'']
            @ [Press ''enter'', Deliver])
         (boot Part004 okCollab soloEcrService AuthDriverUnknown emptyWorld) = Returned cfgP"
    and atP: "atProcessing Part004 soloEcrService ''solo'' ''123456'' cfgP"
    by blast
  from panic_at_processing [OF atP, of plainWidgets]
  have "run Part004 plainWidgets okCollab [Deliver] cfgP = Panicked 4 1"
    by (simp del: run.simps)
  with rP have old: "run Part004 plainWidgets okCollab
     (([Press ''enter'', Deliver] @ [Press ''enter'', Deliver]
         @ typing [''1'', ''2'', ''3'', ''4'', ''5'', ''6'']
         @ [Press ''enter'', Deliver]) @ [Deliver])
     (boot Part004 okCollab soloEcrService AuthDriverUnknown emptyWorld) = Panicked 4 1"
    by (subst run_append) (simp only: outcome.case)
  from token direct new old show ?thesis by blast
qed

end
